theory Spec2Isabelle
  imports Main "HOL-Library.Word"
begin

unbundle bit_operations_syntax

section \<open>evemu-play: device creation and event replay (tools/evemu-play.c)\<close>

text \<open>
  The program is a thin driver around libevemu and the C library.  Every function of
  \<^verbatim>\<open>evemu-play.c\<close> is embedded as a HOL function that threads an explicit
  program state.  The calls that leave the file (libevemu, system calls, stdio) are
  not in the repository: what each of them returns is a field of the environment
  \<open>env\<close>, over which every theorem quantifies, and each such call is written to the
  trace of the state in program order.
\<close>

subsection \<open>Handles, messages and the trace of calls\<close>

text \<open>A non-NULL \<^verbatim>\<open>struct evemu_device *\<close> and a non-NULL \<^verbatim>\<open>FILE *\<close>;
  NULL is \<open>None\<close> of the option type.\<close>

type_synonym dev = nat
type_synonym fileptr = nat

datatype stream = Stdin | File fileptr

text \<open>The lines the program prints, one constructor per format string; the values
  substituted into the format are the constructor's arguments (\<^verbatim>\<open>%m\<close> and
  \<^verbatim>\<open>perror\<close> print the current errno).\<close>

datatype message =
    Cannot_determine_node
  | Error_opening int string
  | Device_line string string
  | Usage_device "string option"
  | Could_not_open_file int
  | Could_not_create_device_ret int
  | Could_not_create_device_errno int
  | Could_not_replay
  | Blank_line
  | Starting_replay
  | Usage_play "string option"
  | Usage_node_help
  | Usage_recording_help
  | Could_not_open_file_or_device int
  | Failed_to_look_at_file int
  | Start_offset int
  | Perror string int
  | Cpu_pinned
  | Realtime_enabled
  | Memory_locked

text \<open>The calls with an effect outside the program.  \<open>Evemu_create_managed\<close> records,
  beside the handle, the name the device object carries when it is registered.  Pure
  getters (\<^verbatim>\<open>evemu_get_name\<close>, \<^verbatim>\<open>evemu_get_devnode\<close>, \<^verbatim>\<open>getpid\<close>,
  \<^verbatim>\<open>strlen\<close>) are not recorded.  \<^verbatim>\<open>atol\<close> is recorded: it sets errno when
  the number is out of range.\<close>

datatype event =
    Evemu_new
  | Evemu_read dev fileptr
  | Evemu_set_name dev string
  | Evemu_create_managed dev string
  | Evemu_destroy dev
  | Evemu_delete dev
  | Evemu_play stream int int
  | Open_rdwr string
  | Read_fd int
  | Close_fd int
  | Fstat int
  | Atol string
  | Fopen string
  | Fdopen int
  | Fclose fileptr
  | Fseek_set fileptr
  | Fflush_stdout
  | Sched_setaffinity nat
  | Sched_setscheduler_fifo int
  | Mlockall
  | Stdout message
  | Stderr message

subsection \<open>Environment and program state\<close>

text \<open>What the outside world answers.  \<open>e_errno ev n\<close> is the value of errno after
  the call \<open>ev\<close> made with errno \<open>n\<close>: any call may overwrite errno.  \<open>e_node_read i\<close>
  is the result of the \<open>i\<close>-th \<^verbatim>\<open>read\<close> on the device node (counted from 0),
  paired with the bytes it delivered.\<close>

record env =
  e_argv :: "string list"
  e_prgm_name :: "string option"
  e_errno :: "event \<Rightarrow> int \<Rightarrow> int"
  e_setaffinity :: int
  e_setscheduler :: int
  e_mlockall :: int
  e_fopen :: "fileptr option"
  e_new :: "dev option"
  e_read :: int
  e_desc_name :: string
  e_pid :: int
  e_create_managed :: int
  e_devnode :: "string option"
  e_open_node :: int
  e_node_read :: "nat \<Rightarrow> int \<times> 8 word list"
  e_open_target :: int
  e_fstat :: int
  e_st_mode :: "32 word"
  e_atol :: "string \<Rightarrow> int"
  e_fdopen :: "fileptr option"
  e_play :: int

text \<open>The program state: errno, the calls made so far, and the name field of the
  one device object a run allocates.\<close>

record state =
  errno :: int
  trace :: "event list"
  dev_name :: string

definition call :: "env \<Rightarrow> event \<Rightarrow> state \<Rightarrow> state" where
  "call env ev s = s\<lparr>errno := e_errno env ev (errno s), trace := trace s @ [ev]\<rparr>"

text \<open>\<^verbatim>\<open>argv[i]\<close>; the entry past the last argument is NULL.\<close>

definition arg :: "string list \<Rightarrow> nat \<Rightarrow> string option" where
  "arg argv i = (if i < length argv then Some (argv ! i) else None)"

subsection \<open>Constants and macros of the system headers\<close>

text \<open>Modelled from the spec: "is a character special device" is the macro
  \<^verbatim>\<open>S_ISCHR\<close> of \<^verbatim>\<open>sys/stat.h\<close>, applied to \<^verbatim>\<open>st.st_mode\<close>.  That header and
  \<^verbatim>\<open>errno.h\<close> are not part of the repository; the values below are those of
  Linux, the platform the file is written for (\<^verbatim>\<open>_GNU_SOURCE\<close>,
  \<^verbatim>\<open>sched_setaffinity\<close>, \<^verbatim>\<open>program_invocation_short_name\<close>).\<close>

definition ENOMEM :: int where
  "ENOMEM = 12"

definition S_IFMT :: "32 word" where
  "S_IFMT = 0xF000"

definition S_IFCHR :: "32 word" where
  "S_IFCHR = 0x2000"

definition S_ISCHR :: "32 word \<Rightarrow> bool" where
  "S_ISCHR m = (m AND S_IFMT = S_IFCHR)"

subsection \<open>\<^verbatim>\<open>sprintf(name, "evemu-%d", getpid())\<close>\<close>

fun dec_nat :: "nat \<Rightarrow> string" where
  "dec_nat n =
     (if n < 10 then [''0123456789'' ! n]
      else dec_nat (n div 10) @ [''0123456789'' ! (n mod 10)])"

declare dec_nat.simps [simp del]

definition printf_d :: "int \<Rightarrow> string" where
  "printf_d i = (if i < 0 then CHR ''-'' # dec_nat (nat (- i)) else dec_nat (nat i))"

definition synthetic_name :: "int \<Rightarrow> string" where
  "synthetic_name pid = ''evemu-'' @ printf_d pid"

text \<open>Reading a decimal numeral back: the value of a digit string, and of an optional
  minus sign followed by digits.  The program does not do this; the properties of
  the synthetic name are stated with it.\<close>

definition digit_value :: "char \<Rightarrow> nat" where
  "digit_value c = of_char c - 48"

definition is_digit :: "char \<Rightarrow> bool" where
  "is_digit c = (48 \<le> (of_char c :: nat) \<and> (of_char c :: nat) \<le> 57)"

definition dec_value :: "string \<Rightarrow> nat" where
  "dec_value ds = foldl (\<lambda>a c. 10 * a + digit_value c) 0 ds"

definition scan_d :: "string \<Rightarrow> int" where
  "scan_d str =
     (case str of
        [] \<Rightarrow> 0
      | c # ds \<Rightarrow> if c = CHR ''-'' then - int (dec_value ds) else int (dec_value str))"

subsection \<open>\<^verbatim>\<open>open_evemu_device\<close>\<close>

definition open_evemu_device :: "env \<Rightarrow> dev \<Rightarrow> state \<Rightarrow> int \<times> state" where
  "open_evemu_device env d s =
     (case e_devnode env of
        None \<Rightarrow> (- 1, call env (Stderr Cannot_determine_node) s)
      | Some device_node \<Rightarrow>
          (let s1 = call env (Open_rdwr device_node) s;
               fd = e_open_node env
           in if fd < 0
              then (- 1, call env (Stderr (Error_opening (errno s1) device_node)) s1)
              else (fd, call env Fflush_stdout
                          (call env (Stdout (Device_line (dev_name s1) device_node)) s1))))"

subsection \<open>\<^verbatim>\<open>open_and_hold_device\<close>\<close>

text \<open>The loop \<^verbatim>\<open>while ((ret = read(fd, data, sizeof(data))) > 0) ;\<close>.  It runs
  for as long as the reads are positive, so it is a partial function: \<open>None\<close> is the
  run that never leaves the loop.  \<open>i\<close> counts the reads already made.\<close>

partial_function (option) hold_loop :: "env \<Rightarrow> int \<Rightarrow> nat \<Rightarrow> state \<Rightarrow> state option" where
  "hold_loop env fd i s =
     (case e_node_read env i of
        (ret, data) \<Rightarrow>
          (if ret > 0 then hold_loop env fd (Suc i) (call env (Read_fd fd) s)
           else Some (call env (Read_fd fd) s)))"

declare hold_loop.simps [code]

definition open_and_hold_device :: "env \<Rightarrow> dev \<Rightarrow> state \<Rightarrow> state option" where
  "open_and_hold_device env d s =
     (case open_evemu_device env d s of
        (fd, s1) \<Rightarrow>
          (if fd < 0 then Some s1
           else (case hold_loop env fd 0 s1 of
                   None \<Rightarrow> None
                 | Some s2 \<Rightarrow> Some (call env (Close_fd fd) s2))))"

subsection \<open>\<^verbatim>\<open>create_device\<close>\<close>

text \<open>The label \<^verbatim>\<open>out:\<close>, reached from every path with the current \<^verbatim>\<open>ret\<close>
  and \<^verbatim>\<open>dev\<close>: \<^verbatim>\<open>if (ret && dev)\<close> destroys the device around a saved errno.\<close>

definition create_device_out :: "env \<Rightarrow> int \<Rightarrow> dev option \<Rightarrow> state \<Rightarrow> dev option \<times> state" where
  "create_device_out env ret dev s =
     (case dev of
        None \<Rightarrow> (None, s)
      | Some d \<Rightarrow>
          (if ret \<noteq> 0
           then (let saved_errno = errno s;
                     s1 = call env (Evemu_destroy d) s
                 in (None, s1\<lparr>errno := saved_errno\<rparr>))
           else (Some d, s)))"

definition create_device :: "env \<Rightarrow> fileptr \<Rightarrow> state \<Rightarrow> dev option \<times> state" where
  "create_device env fp s =
     (let s1 = call env Evemu_new s
      in case e_new env of
           None \<Rightarrow> create_device_out env (- ENOMEM) None s1
         | Some d \<Rightarrow>
             (let s2 = (call env (Evemu_read d fp) s1)\<lparr>dev_name := e_desc_name env\<rparr>;
                  ret = e_read env
              in if ret \<le> 0 then create_device_out env ret (Some d) s2
                 else
                   (let s3 = (if length (dev_name s2) = 0
                              then (call env (Evemu_set_name d (synthetic_name (e_pid env))) s2)
                                     \<lparr>dev_name := synthetic_name (e_pid env)\<rparr>
                              else s2);
                        s4 = call env (Evemu_create_managed d (dev_name s3)) s3;
                        ret = e_create_managed env
                    in create_device_out env ret (Some d) s4)))"

subsection \<open>\<^verbatim>\<open>evemu_device\<close> and \<^verbatim>\<open>device\<close>: the create-device command\<close>

definition evemu_device :: "env \<Rightarrow> fileptr \<Rightarrow> state \<Rightarrow> (int \<times> state) option" where
  "evemu_device env fp s =
     (case create_device env fp s of
        (None, s1) \<Rightarrow> Some (- 1, s1)
      | (Some d, s1) \<Rightarrow>
          (case open_and_hold_device env d s1 of
             None \<Rightarrow> None
           | Some s2 \<Rightarrow> Some (0, call env (Evemu_delete d) s2)))"

definition device :: "env \<Rightarrow> state \<Rightarrow> (int \<times> state) option" where
  "device env s =
     (let argv = e_argv env; argc = length argv
      in if argc < 2
         then Some (- 1, call env (Stderr (Usage_device (arg argv 0))) s)
         else
           (let s1 = call env (Fopen (argv ! 1)) s
            in case e_fopen env of
                 None \<Rightarrow> Some (- 1, call env (Stderr (Could_not_open_file (errno s1))) s1)
               | Some fp \<Rightarrow>
                   (case evemu_device env fp s1 of
                      None \<Rightarrow> None
                    | Some (ret, s2) \<Rightarrow>
                        (if ret \<le> 0
                         then Some (- 1, call env (Stderr (Could_not_create_device_ret ret)) s2)
                         else Some (0, call env (Fclose fp) s2)))))"

subsection \<open>\<^verbatim>\<open>play_from_stdin\<close>, \<^verbatim>\<open>play_from_file\<close> and \<^verbatim>\<open>play\<close>: the replay command\<close>

definition play_from_stdin :: "env \<Rightarrow> int \<Rightarrow> state \<Rightarrow> int \<times> state" where
  "play_from_stdin env fd s =
     (let start_offset_us = 0;
          s1 = call env (Evemu_play Stdin fd start_offset_us) s;
          ret = e_play env
      in (ret, if ret \<noteq> 0 then call env (Stderr Could_not_replay) s1 else s1))"

text \<open>The part of \<^verbatim>\<open>play_from_file\<close> between a successful
  \<^verbatim>\<open>open_evemu_device\<close> and the label \<^verbatim>\<open>out:\<close>.\<close>

definition replay_file :: "env \<Rightarrow> fileptr \<Rightarrow> int \<Rightarrow> int \<Rightarrow> state \<Rightarrow> state" where
  "replay_file env fp fd start_offset_us s =
     (let s1 = call env (Stdout Blank_line) s;
          s2 = call env (Stdout Starting_replay) s1;
          s3 = call env Fflush_stdout s2;
          s4 = call env (Fseek_set fp) s3;
          s5 = call env (Evemu_play (File fp) fd start_offset_us) s4;
          ret = e_play env
      in if ret \<noteq> 0 then call env (Stderr Could_not_replay) s5 else s5)"

definition play_from_file :: "env \<Rightarrow> int \<Rightarrow> int \<Rightarrow> state \<Rightarrow> int \<times> state" where
  "play_from_file env recording_fd start_offset_us s =
     (let s1 = call env (Fdopen recording_fd) s
      in case e_fdopen env of
           None \<Rightarrow> (- 1, call env (Stderr (Could_not_open_file (errno s1))) s1)
         | Some fp \<Rightarrow>
             (case create_device env fp s1 of
                (None, s2) \<Rightarrow>
                  (- 1, call env (Fclose fp)
                          (call env (Stderr (Could_not_create_device_errno (errno s2))) s2))
              | (Some d, s2) \<Rightarrow>
                  (case open_evemu_device env d s2 of
                     (fd, s3) \<Rightarrow>
                       (let s4 = (if fd < 0 then s3
                                  else replay_file env fp fd start_offset_us s3)
                        in (0, call env (Close_fd fd)
                                 (call env (Fclose fp) (call env (Evemu_delete d) s4)))))))"

definition play :: "env \<Rightarrow> state \<Rightarrow> int \<times> state" where
  "play env s =
     (let argv = e_argv env; argc = length argv
      in if argc < 2 \<or> argc > 3
         then (- 1, call env (Stderr Usage_recording_help)
                      (call env (Stderr Usage_node_help)
                         (call env (Stderr Blank_line)
                            (call env (Stderr (Usage_play (arg argv 0))) s))))
         else
           (let s1 = call env (Open_rdwr (argv ! 1)) s;
                fd = e_open_target env
            in if fd < 0
               then (- 1, call env (Stderr (Could_not_open_file_or_device (errno s1))) s1)
               else
                 (let s2 = call env (Fstat fd) s1
                  in if e_fstat env = - 1
                     then (- 1, call env (Stderr (Failed_to_look_at_file (errno s2))) s2)
                     else
                       (let start_offset_us = (if argc = 3 then e_atol env (argv ! 2) else 0);
                            s3 = (if argc = 3
                                  then call env Fflush_stdout
                                         (call env (Stdout (Start_offset start_offset_us))
                                            (call env (Atol (argv ! 2)) s2))
                                  else s2);
                            s4 = (if S_ISCHR (e_st_mode env)
                                  then snd (play_from_stdin env fd s3)
                                  else snd (play_from_file env fd start_offset_us s3))
                        in (0, call env (Close_fd fd) s4)))))"

subsection \<open>\<^verbatim>\<open>setup_realtime_cpu\<close> and \<^verbatim>\<open>main\<close>\<close>

definition setup_realtime_cpu :: "env \<Rightarrow> state \<Rightarrow> state" where
  "setup_realtime_cpu env s =
     (let s1 = call env (Sched_setaffinity 3) s;
          s2 = (if e_setaffinity env \<noteq> 0
                then call env (Stderr (Perror ''sched_setaffinity failed'' (errno s1))) s1
                else call env (Stdout Cpu_pinned) s1);
          s3 = call env (Sched_setscheduler_fifo 99) s2;
          s4 = (if e_setscheduler env \<noteq> 0
                then call env (Stderr (Perror ''sched_setscheduler failed (are you root?)''
                                         (errno s3))) s3
                else call env (Stdout Realtime_enabled) s3);
          s5 = call env Mlockall s4
      in if e_mlockall env \<noteq> 0
         then call env (Stderr (Perror ''mlockall failed'' (errno s5))) s5
         else call env (Stdout Memory_locked) s5)"

definition is_device_name :: "string option \<Rightarrow> bool" where
  "is_device_name prgm_name =
     (case prgm_name of
        None \<Rightarrow> False
      | Some n \<Rightarrow> n = ''evemu-device'' \<or> n = ''lt-evemu-device'')"

definition main :: "env \<Rightarrow> state \<Rightarrow> (int \<times> state) option" where
  "main env s =
     (let s1 = setup_realtime_cpu env s
      in if is_device_name (e_prgm_name env) then device env s1 else Some (play env s1))"

text \<open>The exit status the parent process sees: the low eight bits of what
  \<^verbatim>\<open>main\<close> returns.\<close>

definition exit_status :: "int \<Rightarrow> int" where
  "exit_status r = r mod 256"

subsection \<open>A run observed after finitely many reads\<close>

text \<open>A create-device run may stay in the hold loop for ever, and then \<^verbatim>\<open>main\<close>
  has no result.  What such a run has done so far is read off the same functions
  with a bound \<open>n\<close> on the reads of the hold loop: the flag, or the result \<open>None\<close>,
  says that the loop was still running when the bound was reached, and the state is
  the one reached by then.\<close>

fun hold_loop_upto :: "nat \<Rightarrow> env \<Rightarrow> int \<Rightarrow> nat \<Rightarrow> state \<Rightarrow> bool \<times> state" where
  "hold_loop_upto 0 env fd i s = (False, s)"
| "hold_loop_upto (Suc n) env fd i s =
     (case e_node_read env i of
        (ret, data) \<Rightarrow>
          (if ret > 0 then hold_loop_upto n env fd (Suc i) (call env (Read_fd fd) s)
           else (True, call env (Read_fd fd) s)))"

definition open_and_hold_device_upto :: "nat \<Rightarrow> env \<Rightarrow> dev \<Rightarrow> state \<Rightarrow> bool \<times> state" where
  "open_and_hold_device_upto n env d s =
     (case open_evemu_device env d s of
        (fd, s1) \<Rightarrow>
          (if fd < 0 then (True, s1)
           else (case hold_loop_upto n env fd 0 s1 of
                   (False, s2) \<Rightarrow> (False, s2)
                 | (True, s2) \<Rightarrow> (True, call env (Close_fd fd) s2))))"

definition evemu_device_upto :: "nat \<Rightarrow> env \<Rightarrow> fileptr \<Rightarrow> state \<Rightarrow> int option \<times> state" where
  "evemu_device_upto n env fp s =
     (case create_device env fp s of
        (None, s1) \<Rightarrow> (Some (- 1), s1)
      | (Some d, s1) \<Rightarrow>
          (case open_and_hold_device_upto n env d s1 of
             (False, s2) \<Rightarrow> (None, s2)
           | (True, s2) \<Rightarrow> (Some 0, call env (Evemu_delete d) s2)))"

definition device_upto :: "nat \<Rightarrow> env \<Rightarrow> state \<Rightarrow> int option \<times> state" where
  "device_upto n env s =
     (let argv = e_argv env; argc = length argv
      in if argc < 2
         then (Some (- 1), call env (Stderr (Usage_device (arg argv 0))) s)
         else
           (let s1 = call env (Fopen (argv ! 1)) s
            in case e_fopen env of
                 None \<Rightarrow> (Some (- 1), call env (Stderr (Could_not_open_file (errno s1))) s1)
               | Some fp \<Rightarrow>
                   (case evemu_device_upto n env fp s1 of
                      (None, s2) \<Rightarrow> (None, s2)
                    | (Some ret, s2) \<Rightarrow>
                        (if ret \<le> 0
                         then (Some (- 1), call env (Stderr (Could_not_create_device_ret ret)) s2)
                         else (Some 0, call env (Fclose fp) s2)))))"

definition main_upto :: "nat \<Rightarrow> env \<Rightarrow> state \<Rightarrow> int option \<times> state" where
  "main_upto n env s =
     (let s1 = setup_realtime_cpu env s
      in if is_device_name (e_prgm_name env) then device_upto n env s1
         else (Some (fst (play env s1)), snd (play env s1)))"

subsection \<open>Reading traces\<close>

text \<open>A sequence of calls made one after the other.\<close>

fun calls :: "env \<Rightarrow> event list \<Rightarrow> state \<Rightarrow> state" where
  "calls env [] s = s"
| "calls env (ev # evs) s = calls env evs (call env ev s)"

text \<open>The calls a run added to the trace it started from.\<close>

definition new_events :: "state \<Rightarrow> state \<Rightarrow> event list" where
  "new_events s s' = drop (length (trace s)) (trace s')"

fun is_play :: "event \<Rightarrow> bool" where
  "is_play (Evemu_play src fd off) = True"
| "is_play ev = False"

fun is_tuning :: "event \<Rightarrow> bool" where
  "is_tuning (Sched_setaffinity c) = True"
| "is_tuning (Sched_setscheduler_fifo p) = True"
| "is_tuning Mlockall = True"
| "is_tuning ev = False"

text \<open>The calls by which a device comes into being: allocation and registration.\<close>

fun is_creation :: "event \<Rightarrow> bool" where
  "is_creation Evemu_new = True"
| "is_creation (Evemu_create_managed d n) = True"
| "is_creation ev = False"

subsection \<open>Sample runs\<close>

text \<open>An environment in which a regular file is replayed and every call succeeds,
  except that the process may not raise its scheduling class.  Three calls overwrite
  errno; the node delivers three blocks of 24 bytes and then end of file.\<close>

definition errno_sample :: "event \<Rightarrow> int \<Rightarrow> int" where
  "errno_sample ev n =
     (case ev of
        Evemu_read d fp \<Rightarrow> 22
      | Evemu_create_managed d name \<Rightarrow> 13
      | Evemu_destroy d \<Rightarrow> 9
      | _ \<Rightarrow> n)"

definition env_replay :: env where
  "env_replay =
     \<lparr>e_argv = [''evemu-play'', ''recording.evemu''],
      e_prgm_name = Some ''evemu-play'',
      e_errno = errno_sample,
      e_setaffinity = 0,
      e_setscheduler = - 1,
      e_mlockall = 0,
      e_fopen = Some 1,
      e_new = Some 7,
      e_read = 1,
      e_desc_name = ''vtest'',
      e_pid = 4242,
      e_create_managed = 0,
      e_devnode = Some ''/dev/input/event9'',
      e_open_node = 5,
      e_node_read = (\<lambda>i. if i < 3 then (24, replicate 24 0) else (0, [])),
      e_open_target = 3,
      e_fstat = 0,
      e_st_mode = 0x81A4,
      e_atol = (\<lambda>a. 0),
      e_fdopen = Some 2,
      e_play = 0\<rparr>"

text \<open>The same machine, the program started as \<^verbatim>\<open>evemu-device dev.prop\<close>.\<close>

definition env_device :: env where
  "env_device =
     env_replay\<lparr>e_argv := [''evemu-device'', ''dev.prop''],
                e_prgm_name := Some ''evemu-device''\<rparr>"

text \<open>The target is a character device (mode 020600) and an offset is given on the
  command line.\<close>

definition env_live :: env where
  "env_live =
     env_replay\<lparr>e_argv := [''evemu-play'', ''/dev/input/event3'', ''2000''],
                e_st_mode := 0x2180,
                e_atol := (\<lambda>a. 2000)\<rparr>"

text \<open>The same machine again, with a node that delivers events for ever.\<close>

definition env_hold :: env where
  "env_hold = env_device\<lparr>e_node_read := (\<lambda>i. (24, replicate 24 0))\<rparr>"

definition s0 :: state where
  "s0 = \<lparr>errno = 0, trace = [], dev_name = []\<rparr>"

section \<open>Properties\<close>

subsection \<open>Reading the state after a call\<close>

lemma trace_call: "trace (call env ev s) = trace s @ [ev]"
  by (simp add: call_def)

lemma errno_call: "errno (call env ev s) = e_errno env ev (errno s)"
  by (simp add: call_def)

lemma dev_name_call: "dev_name (call env ev s) = dev_name s"
  by (simp add: call_def)

lemma trace_calls: "trace (calls env evs s) = trace s @ evs"
  by (induction evs arbitrary: s) (simp_all add: trace_call)

subsection \<open>The hold loop\<close>

lemma hold_loop_positive:
  "0 < fst (e_node_read env i) \<Longrightarrow>
   hold_loop env fd i s = hold_loop env fd (Suc i) (call env (Read_fd fd) s)"
  by (subst hold_loop.simps) (auto split: prod.splits)

lemma hold_loop_stop:
  "fst (e_node_read env i) \<le> 0 \<Longrightarrow> hold_loop env fd i s = Some (call env (Read_fd fd) s)"
  by (subst hold_loop.simps) (auto split: prod.splits)

text \<open>Started before its \<open>i\<close>-th read, with \<open>N\<close> positive reads ahead and then one that
  is not, the loop returns after \<open>N + 1\<close> reads.\<close>

lemma hold_loop_reads:
  "\<forall>j<N. 0 < fst (e_node_read env (i + j)) \<Longrightarrow> fst (e_node_read env (i + N)) \<le> 0 \<Longrightarrow>
   hold_loop env fd i s = Some (calls env (replicate (Suc N) (Read_fd fd)) s)"
proof (induction N arbitrary: i s)
  case 0
  then show ?case by (simp add: hold_loop_stop)
next
  case (Suc N)
  from Suc.prems(1) have pos: "0 < fst (e_node_read env i)"
    by (metis add.right_neutral zero_less_Suc)
  have later: "\<forall>j<N. 0 < fst (e_node_read env (Suc i + j))"
    using Suc.prems(1) by (metis Suc_mono add_Suc_right add_Suc)
  have stop: "fst (e_node_read env (Suc i + N)) \<le> 0"
    using Suc.prems(2) by simp
  have "hold_loop env fd (Suc i) (call env (Read_fd fd) s) =
        Some (calls env (replicate (Suc N) (Read_fd fd)) (call env (Read_fd fd) s))"
    by (rule Suc.IH [OF later stop])
  with pos show ?case
    by (simp add: hold_loop_positive)
qed

text \<open>
  C4.  Once the node is open (descriptor \<open>fd\<close>, state \<open>s1\<close>), if the first \<open>N\<close> reads
  are positive and the next one is zero or negative, \<^verbatim>\<open>open_and_hold_device\<close>
  returns, and what it did after the open is exactly \<open>N + 1\<close> reads followed by one
  close of the descriptor: no read follows the first non-positive result.  The bytes
  the reads delivered occur nowhere in the result.  The statement holds for every
  \<open>N\<close>, in particular for \<open>N > 0\<close>.
\<close>

theorem open_and_hold_device_reads:
  assumes opened: "open_evemu_device env d s = (fd, s1)" and fd: "0 \<le> fd"
    and positive: "\<forall>j<N. 0 < fst (e_node_read env j)"
    and stop: "fst (e_node_read env N) \<le> 0"
  shows "\<exists>s'. open_and_hold_device env d s = Some s' \<and>
           trace s' = trace s1 @ replicate (Suc N) (Read_fd fd) @ [Close_fd fd]"
proof -
  have "hold_loop env fd 0 s1 = Some (calls env (replicate (Suc N) (Read_fd fd)) s1)"
    using positive stop by (intro hold_loop_reads) simp_all
  with opened fd show ?thesis
    by (simp add: open_and_hold_device_def trace_call trace_calls)
qed

text \<open>The sample node: three positive reads, then end of file; four reads, one close.\<close>

theorem open_and_hold_device_reads_witness:
  "\<exists>s'. open_and_hold_device env_replay 7 s0 = Some s' \<and>
     trace s' = [Open_rdwr ''/dev/input/event9'',
                 Stdout (Device_line [] ''/dev/input/event9''), Fflush_stdout,
                 Read_fd 5, Read_fd 5, Read_fd 5, Read_fd 5, Close_fd 5]"
  using open_and_hold_device_reads [of env_replay 7 s0 5
          "call env_replay Fflush_stdout
             (call env_replay (Stdout (Device_line [] ''/dev/input/event9''))
                (call env_replay (Open_rdwr ''/dev/input/event9'') s0))" 3]
  by (simp add: open_evemu_device_def env_replay_def s0_def call_def numeral_3_eq_3)

subsection \<open>Device creation\<close>

text \<open>
  C9.  When \<^verbatim>\<open>evemu_new\<close> succeeds and \<^verbatim>\<open>evemu_read\<close> returns exactly zero,
  \<^verbatim>\<open>create_device\<close> returns the non-NULL handle, having called nothing but
  \<^verbatim>\<open>evemu_new\<close> and \<^verbatim>\<open>evemu_read\<close>: the device is neither registered nor
  destroyed.
\<close>

theorem create_device_read_zero:
  assumes "e_new env = Some d" and "e_read env = 0"
  shows "fst (create_device env fp s) = Some d \<and>
         trace (snd (create_device env fp s)) = trace s @ [Evemu_new, Evemu_read d fp]"
  using assms
  by (simp add: create_device_def create_device_out_def trace_call)

theorem create_device_read_zero_witness:
  "fst (create_device (env_replay\<lparr>e_read := 0\<rparr>) 2 s0) = Some 7 \<and>
   trace (snd (create_device (env_replay\<lparr>e_read := 0\<rparr>) 2 s0)) = [Evemu_new, Evemu_read 7 2]"
  using create_device_read_zero [of "env_replay\<lparr>e_read := 0\<rparr>" 7 2 s0]
  by (simp add: env_replay_def s0_def)

text \<open>
  Cleanup on the failure paths that reach \<^verbatim>\<open>out:\<close> with a nonzero \<^verbatim>\<open>ret\<close>: a
  negative \<^verbatim>\<open>evemu_read\<close> and a rejected registration both end in
  \<^verbatim>\<open>evemu_destroy\<close>, NULL is returned, and errno is the one the failing call
  left, whatever \<^verbatim>\<open>evemu_destroy\<close> did to it.
\<close>

lemma create_device_read_negative:
  assumes "e_new env = Some d" and "e_read env < 0"
  shows "fst (create_device env fp s) = None \<and>
         trace (snd (create_device env fp s)) =
           trace s @ [Evemu_new, Evemu_read d fp, Evemu_destroy d] \<and>
         errno (snd (create_device env fp s)) =
           errno (call env (Evemu_read d fp) (call env Evemu_new s))"
  using assms
  by (simp add: create_device_def create_device_out_def Let_def trace_call)

lemma create_device_registration_rejected:
  assumes "e_new env = Some d" and "0 < e_read env" and "e_create_managed env \<noteq> 0"
  shows "\<exists>s3. fst (create_device env fp s) = None \<and>
           trace (snd (create_device env fp s)) =
             trace s3 @ [Evemu_create_managed d (dev_name s3), Evemu_destroy d] \<and>
           errno (snd (create_device env fp s)) =
             errno (call env (Evemu_create_managed d (dev_name s3)) s3)"
proof (cases "e_desc_name env = []")
  case True
  with assms show ?thesis
    by (intro exI [of _ "(call env (Evemu_set_name d (synthetic_name (e_pid env)))
                           ((call env (Evemu_read d fp) (call env Evemu_new s))
                              \<lparr>dev_name := e_desc_name env\<rparr>))
                          \<lparr>dev_name := synthetic_name (e_pid env)\<rparr>"])
      (simp add: create_device_def create_device_out_def Let_def trace_call)
next
  case False
  with assms show ?thesis
    by (intro exI [of _ "(call env (Evemu_read d fp) (call env Evemu_new s))
                           \<lparr>dev_name := e_desc_name env\<rparr>"])
      (simp add: create_device_def create_device_out_def Let_def trace_call)
qed

text \<open>
  C2, the path that is not cleaned up.  \<^verbatim>\<open>if (ret <= 0) goto out;\<close> takes a zero
  result of \<^verbatim>\<open>evemu_read\<close> for a failure, but the cleanup is guarded by
  \<^verbatim>\<open>ret && dev\<close>: in the sample environment with \<^verbatim>\<open>evemu_read\<close> returning 0
  the device is not destroyed and the handle 7, not NULL, is returned.
\<close>

theorem create_device_zero_read_not_destroyed:
  "create_device (env_replay\<lparr>e_read := 0\<rparr>) 2 s0 =
     (Some 7, \<lparr>errno = 22, trace = [Evemu_new, Evemu_read 7 2], dev_name = ''vtest''\<rparr>)"
  by (simp add: create_device_def create_device_out_def env_replay_def s0_def call_def
        errno_sample_def)

text \<open>\<^verbatim>\<open>printf_d\<close> writes the decimal numeral of its argument: an optional minus
  sign, then digits without a leading zero whose value is the absolute value; read
  back, the numeral gives the argument, so different numbers are written
  differently.\<close>

lemma nth_digits:
  assumes "k < 10"
  shows "is_digit (''0123456789'' ! k) \<and> digit_value (''0123456789'' ! k) = k"
proof -
  from assms have "k \<in> {0, 1, 2, 3, 4, 5, 6, 7, 8, 9}"
    by auto
  then show ?thesis
    by (auto simp add: is_digit_def digit_value_def)
qed

lemma dec_value_snoc: "dec_value (ds @ [c]) = 10 * dec_value ds + digit_value c"
  by (simp add: dec_value_def)

lemma dec_nat_not_empty: "dec_nat n \<noteq> []"
  by (subst dec_nat.simps) simp

lemma dec_nat_digits: "list_all is_digit (dec_nat n)"
proof (induction n rule: dec_nat.induct)
  case (1 n)
  show ?case
  proof (cases "n < 10")
    case True
    then show ?thesis
      by (subst dec_nat.simps) (simp add: nth_digits)
  next
    case False
    with 1 show ?thesis
      by (subst dec_nat.simps) (simp add: nth_digits)
  qed
qed

lemma dec_value_dec_nat: "dec_value (dec_nat n) = n"
proof (induction n rule: dec_nat.induct)
  case (1 n)
  show ?case
  proof (cases "n < 10")
    case True
    then show ?thesis
      by (subst dec_nat.simps) (simp add: nth_digits dec_value_def)
  next
    case False
    with 1 show ?thesis
      by (subst dec_nat.simps) (simp add: nth_digits dec_value_snoc)
  qed
qed

lemma dec_nat_leading_zero: "hd (dec_nat n) = CHR ''0'' \<Longrightarrow> n = 0"
proof (induction n rule: dec_nat.induct)
  case (1 n)
  show ?case
  proof (cases "n < 10")
    case True
    with 1(2) have "digit_value (''0123456789'' ! n) = digit_value CHR ''0''"
      by (subst (asm) dec_nat.simps) simp
    moreover from True have "digit_value (''0123456789'' ! n) = n"
      by (simp add: nth_digits)
    ultimately show ?thesis
      by (simp add: digit_value_def)
  next
    case False
    with 1(2) have "hd (dec_nat (n div 10)) = CHR ''0''"
      by (subst (asm) dec_nat.simps) (simp add: dec_nat_not_empty)
    with False 1(1) have "n div 10 = 0"
      by simp
    with False show ?thesis
      by simp
  qed
qed

lemma printf_d_decimal:
  "\<exists>ds. printf_d i = (if i < 0 then CHR ''-'' # ds else ds) \<and>
        ds \<noteq> [] \<and> list_all is_digit ds \<and> int (dec_value ds) = \<bar>i\<bar> \<and>
        (hd ds = CHR ''0'' \<longrightarrow> ds = ''0'')"
proof -
  let ?ds = "dec_nat (nat \<bar>i\<bar>)"
  have "printf_d i = (if i < 0 then CHR ''-'' # ?ds else ?ds)"
    by (simp add: printf_d_def abs_if)
  moreover have "?ds \<noteq> []"
    by (rule dec_nat_not_empty)
  moreover have "list_all is_digit ?ds"
    by (rule dec_nat_digits)
  moreover have "int (dec_value ?ds) = \<bar>i\<bar>"
    by (simp add: dec_value_dec_nat)
  moreover have "hd ?ds = CHR ''0'' \<longrightarrow> ?ds = ''0''"
  proof
    assume "hd ?ds = CHR ''0''"
    then have "nat \<bar>i\<bar> = 0"
      by (rule dec_nat_leading_zero)
    then show "?ds = ''0''"
      by (simp add: dec_nat.simps)
  qed
  ultimately show ?thesis
    by blast
qed

lemma dec_nat_no_sign: "hd (dec_nat n) \<noteq> CHR ''-''"
proof -
  have "is_digit (hd (dec_nat n))"
    using dec_nat_digits [of n] dec_nat_not_empty [of n]
    by (cases "dec_nat n") simp_all
  then show ?thesis
    by (auto simp add: is_digit_def)
qed

lemma scan_d_printf_d: "scan_d (printf_d i) = i"
proof (cases "i < 0")
  case True
  then show ?thesis
    by (simp add: scan_d_def printf_d_def dec_value_dec_nat)
next
  case False
  obtain c ds where cs: "dec_nat (nat i) = c # ds"
    using dec_nat_not_empty [of "nat i"] by (cases "dec_nat (nat i)") auto
  with dec_nat_no_sign [of "nat i"] have "c \<noteq> CHR ''-''"
    by simp
  moreover have "dec_value (c # ds) = nat i"
    using dec_value_dec_nat [of "nat i"] cs by simp
  ultimately show ?thesis
    using False cs by (simp add: scan_d_def printf_d_def)
qed

lemma printf_d_inj: "printf_d i = printf_d j \<Longrightarrow> i = j"
  by (metis scan_d_printf_d)

text \<open>
  C5.  When the description is loaded (\<^verbatim>\<open>evemu_read\<close> positive) and carries the
  empty name, \<^verbatim>\<open>create_device\<close> sets the name \<open>evemu-<pid>\<close> and only then
  registers the device, which carries that name at registration.  The name is not
  empty, and what follows the prefix is the decimal numeral of the process id and of
  nothing else: a minus sign exactly if the id is negative, then digits without a
  leading zero whose value is the absolute value of the id; reading it back gives
  the process id.
\<close>

theorem create_device_synthetic_name:
  assumes "e_new env = Some d" and "0 < e_read env" and "e_desc_name env = []"
  shows "trace (snd (create_device env fp s)) =
           trace s @ [Evemu_new, Evemu_read d fp,
                      Evemu_set_name d (''evemu-'' @ printf_d (e_pid env)),
                      Evemu_create_managed d (''evemu-'' @ printf_d (e_pid env))]
                   @ (if e_create_managed env \<noteq> 0 then [Evemu_destroy d] else []) \<and>
         ''evemu-'' @ printf_d (e_pid env) \<noteq> [] \<and>
         (\<exists>ds. printf_d (e_pid env) = (if e_pid env < 0 then CHR ''-'' # ds else ds) \<and>
               ds \<noteq> [] \<and> list_all is_digit ds \<and> int (dec_value ds) = \<bar>e_pid env\<bar> \<and>
               (hd ds = CHR ''0'' \<longrightarrow> ds = ''0'')) \<and>
         scan_d (printf_d (e_pid env)) = e_pid env"
  using assms printf_d_decimal [of "e_pid env"]
  by (simp add: create_device_def create_device_out_def Let_def trace_call dev_name_call
        synthetic_name_def scan_d_printf_d)

theorem create_device_synthetic_name_witness:
  "trace (snd (create_device (env_replay\<lparr>e_desc_name := []\<rparr>) 2 s0)) =
     [Evemu_new, Evemu_read 7 2, Evemu_set_name 7 ''evemu-4242'',
      Evemu_create_managed 7 ''evemu-4242''] \<and>
   scan_d ''4242'' = 4242"
  using create_device_synthetic_name [of "env_replay\<lparr>e_desc_name := []\<rparr>" 7 2 s0]
  by (simp add: env_replay_def s0_def printf_d_def dec_nat.simps)

subsection \<open>File mode: teardown\<close>

lemma trace_replay_file:
  "trace (replay_file env fp fd off s) =
     trace s @ [Stdout Blank_line, Stdout Starting_replay, Fflush_stdout, Fseek_set fp,
                Evemu_play (File fp) fd off]
             @ (if e_play env \<noteq> 0 then [Stderr Could_not_replay] else [])"
  by (simp add: replay_file_def Let_def trace_call)

text \<open>
  C3.  In \<^verbatim>\<open>play_from_file\<close>, once \<^verbatim>\<open>create_device\<close> has returned a handle
  \<open>d\<close>, every path ends with \<^verbatim>\<open>evemu_delete(dev)\<close>, \<^verbatim>\<open>fclose(fp)\<close> and
  \<^verbatim>\<open>close(fd)\<close>, in this order and as the last three calls: when the node cannot be
  opened (\<open>fd < 0\<close>, nothing is replayed), when the replay succeeds and when it fails
  (the report on the error stream comes before the teardown).
\<close>

theorem play_from_file_teardown:
  assumes "e_fdopen env = Some fp"
    and "create_device env fp (call env (Fdopen rfd) s) = (Some d, s2)"
    and "open_evemu_device env d s2 = (fd, s3)"
  shows "fst (play_from_file env rfd off s) = 0 \<and>
         trace (snd (play_from_file env rfd off s)) =
           trace s3
           @ (if fd < 0 then []
              else [Stdout Blank_line, Stdout Starting_replay, Fflush_stdout, Fseek_set fp,
                    Evemu_play (File fp) fd off]
                   @ (if e_play env \<noteq> 0 then [Stderr Could_not_replay] else []))
           @ [Evemu_delete d, Fclose fp, Close_fd fd]"
  using assms
  by (simp add: play_from_file_def Let_def trace_call trace_replay_file)

text \<open>The three exit paths in the sample environment: replay succeeds, replay fails,
  the node cannot be opened.\<close>

theorem play_from_file_teardown_witness:
  "trace (snd (play_from_file env_replay 3 0 s0)) =
     [Fdopen 3, Evemu_new, Evemu_read 7 2, Evemu_create_managed 7 ''vtest'',
      Open_rdwr ''/dev/input/event9'', Stdout (Device_line ''vtest'' ''/dev/input/event9''),
      Fflush_stdout, Stdout Blank_line, Stdout Starting_replay, Fflush_stdout, Fseek_set 2,
      Evemu_play (File 2) 5 0, Evemu_delete 7, Fclose 2, Close_fd 5] \<and>
   trace (snd (play_from_file (env_replay\<lparr>e_play := - 1\<rparr>) 3 0 s0)) =
     [Fdopen 3, Evemu_new, Evemu_read 7 2, Evemu_create_managed 7 ''vtest'',
      Open_rdwr ''/dev/input/event9'', Stdout (Device_line ''vtest'' ''/dev/input/event9''),
      Fflush_stdout, Stdout Blank_line, Stdout Starting_replay, Fflush_stdout, Fseek_set 2,
      Evemu_play (File 2) 5 0, Stderr Could_not_replay, Evemu_delete 7, Fclose 2, Close_fd 5] \<and>
   trace (snd (play_from_file (env_replay\<lparr>e_open_node := - 1\<rparr>) 3 0 s0)) =
     [Fdopen 3, Evemu_new, Evemu_read 7 2, Evemu_create_managed 7 ''vtest'',
      Open_rdwr ''/dev/input/event9'', Stderr (Error_opening 13 ''/dev/input/event9''),
      Evemu_delete 7, Fclose 2, Close_fd (- 1)]"
  using
    play_from_file_teardown [of env_replay 2 3 s0 7
      "snd (create_device env_replay 2 (call env_replay (Fdopen 3) s0))" 5
      "snd (open_evemu_device env_replay 7
              (snd (create_device env_replay 2 (call env_replay (Fdopen 3) s0))))" 0]
    play_from_file_teardown [of "env_replay\<lparr>e_play := - 1\<rparr>" 2 3 s0 7
      "snd (create_device (env_replay\<lparr>e_play := - 1\<rparr>) 2
              (call (env_replay\<lparr>e_play := - 1\<rparr>) (Fdopen 3) s0))" 5
      "snd (open_evemu_device (env_replay\<lparr>e_play := - 1\<rparr>) 7
              (snd (create_device (env_replay\<lparr>e_play := - 1\<rparr>) 2
                      (call (env_replay\<lparr>e_play := - 1\<rparr>) (Fdopen 3) s0))))" 0]
    play_from_file_teardown [of "env_replay\<lparr>e_open_node := - 1\<rparr>" 2 3 s0 7
      "snd (create_device (env_replay\<lparr>e_open_node := - 1\<rparr>) 2
              (call (env_replay\<lparr>e_open_node := - 1\<rparr>) (Fdopen 3) s0))" "- 1"
      "snd (open_evemu_device (env_replay\<lparr>e_open_node := - 1\<rparr>) 7
              (snd (create_device (env_replay\<lparr>e_open_node := - 1\<rparr>) 2
                      (call (env_replay\<lparr>e_open_node := - 1\<rparr>) (Fdopen 3) s0))))" 0]
  by (simp add: env_replay_def s0_def create_device_def create_device_out_def
        open_evemu_device_def call_def errno_sample_def)

subsection \<open>What each function adds to the trace\<close>

lemma new_events_append: "trace s' = trace s @ evs \<Longrightarrow> new_events s s' = evs"
  by (simp add: new_events_def)

lemma create_device_adds:
  assumes "create_device env fp s = (dv, s')"
    and "P Evemu_new" and "\<And>d fp. P (Evemu_read d fp)" and "\<And>d n. P (Evemu_set_name d n)"
    and "\<And>d n. P (Evemu_create_managed d n)" and "\<And>d. P (Evemu_destroy d)"
  shows "\<exists>evs. trace s' = trace s @ evs \<and> list_all P evs"
  using assms
  by (auto simp add: create_device_def create_device_out_def Let_def trace_call
        split: option.splits if_splits)

lemma open_evemu_device_adds:
  assumes "open_evemu_device env d s = (fd, s')"
    and "\<And>m. P (Stderr m)" and "\<And>m. P (Stdout m)" and "\<And>p. P (Open_rdwr p)"
    and "P Fflush_stdout"
  shows "\<exists>evs. trace s' = trace s @ evs \<and> list_all P evs"
  using assms
  by (auto simp add: open_evemu_device_def Let_def trace_call split: option.splits if_splits)

text \<open>What \<^verbatim>\<open>play_from_file\<close> adds to the trace: no tuning call, and a report on the
  error stream whenever the replay ran and failed.\<close>

lemma play_from_file_adds:
  "\<exists>evs. trace (snd (play_from_file env rfd off s)) = trace s @ evs \<and>
     list_all (\<lambda>ev. \<not> is_tuning ev) evs \<and>
     (list_ex is_play evs \<and> e_play env \<noteq> 0 \<longrightarrow> Stderr Could_not_replay \<in> set evs)"
proof (cases "e_fdopen env")
  case None
  then show ?thesis
    by (simp add: play_from_file_def Let_def trace_call)
next
  case (Some fp)
  let ?P = "\<lambda>ev. \<not> is_tuning ev \<and> \<not> is_play ev"
  let ?s1 = "call env (Fdopen rfd) s"
  obtain dv s2 where cd: "create_device env fp ?s1 = (dv, s2)"
    by (cases "create_device env fp ?s1")
  from create_device_adds [OF cd, of ?P]
  obtain evs1 where e1: "trace s2 = trace ?s1 @ evs1" "list_all ?P evs1"
    by auto
  show ?thesis
  proof (cases dv)
    case None
    with Some cd e1 show ?thesis
      by (auto simp add: play_from_file_def Let_def trace_call list_all_iff list_ex_iff)
  next
    case dv: (Some d)
    obtain fd s3 where op: "open_evemu_device env d s2 = (fd, s3)"
      by (cases "open_evemu_device env d s2")
    from open_evemu_device_adds [OF op, of ?P]
    obtain evs2 where e2: "trace s3 = trace s2 @ evs2" "list_all ?P evs2"
      by auto
    from Some cd dv op e1 e2 show ?thesis
      by (auto simp add: play_from_file_def Let_def trace_call trace_replay_file
            list_all_iff list_ex_iff)
  qed
qed

text \<open>File mode of \<^verbatim>\<open>play\<close>: the prologue (open, fstat, atol and the offset line if
  an offset is given), then
  \<^verbatim>\<open>play_from_file\<close> on the descriptor just opened, then the close.\<close>

lemma play_file_mode:
  assumes "2 \<le> length (e_argv env)" and "length (e_argv env) \<le> 3"
    and "0 \<le> e_open_target env" and "e_fstat env \<noteq> - 1" and "\<not> S_ISCHR (e_st_mode env)"
  shows "play env s =
           (0, call env (Close_fd (e_open_target env))
                 (snd (play_from_file env (e_open_target env)
                         (if length (e_argv env) = 3 then e_atol env (e_argv env ! 2) else 0)
                         (calls env
                            ([Open_rdwr (e_argv env ! 1), Fstat (e_open_target env)] @
                             (if length (e_argv env) = 3
                              then [Atol (e_argv env ! 2),
                                    Stdout (Start_offset (e_atol env (e_argv env ! 2))),
                                    Fflush_stdout]
                              else [])) s))))"
  using assms by (simp add: play_def Let_def)

lemma play_live_mode:
  assumes "2 \<le> length (e_argv env)" and "length (e_argv env) \<le> 3"
    and "0 \<le> e_open_target env" and "e_fstat env \<noteq> - 1" and "S_ISCHR (e_st_mode env)"
  shows "play env s =
           (0, calls env
                 ([Open_rdwr (e_argv env ! 1), Fstat (e_open_target env)] @
                  (if length (e_argv env) = 3
                   then [Atol (e_argv env ! 2),
                         Stdout (Start_offset (e_atol env (e_argv env ! 2))), Fflush_stdout]
                   else []) @
                  [Evemu_play Stdin (e_open_target env) 0] @
                  (if e_play env \<noteq> 0 then [Stderr Could_not_replay] else []) @
                  [Close_fd (e_open_target env)]) s)"
  using assms by (simp add: play_def play_from_stdin_def Let_def)

lemma play_adds:
  "\<exists>evs. trace (snd (play env s)) = trace s @ evs \<and> list_all (\<lambda>ev. \<not> is_tuning ev) evs"
proof (cases "2 \<le> length (e_argv env) \<and> length (e_argv env) \<le> 3 \<and>
              0 \<le> e_open_target env \<and> e_fstat env \<noteq> - 1")
  case False
  then show ?thesis
    by (auto simp add: play_def Let_def trace_call)
next
  case ok: True
  show ?thesis
  proof (cases "S_ISCHR (e_st_mode env)")
    case True
    with ok show ?thesis
      by (simp add: play_live_mode trace_call)
  next
    case False
    let ?pre = "[Open_rdwr (e_argv env ! 1), Fstat (e_open_target env)] @
                (if length (e_argv env) = 3
                 then [Atol (e_argv env ! 2),
                       Stdout (Start_offset (e_atol env (e_argv env ! 2))), Fflush_stdout]
                 else [])"
    let ?off = "if length (e_argv env) = 3 then e_atol env (e_argv env ! 2) else 0"
    from play_from_file_adds [of env "e_open_target env" ?off "calls env ?pre s"]
    obtain evs where
      e: "trace (snd (play_from_file env (e_open_target env) ?off (calls env ?pre s))) =
            trace (calls env ?pre s) @ evs"
      and t: "list_all (\<lambda>ev. \<not> is_tuning ev) evs"
      by blast
    have "trace (snd (play env s)) = trace s @ (?pre @ evs @ [Close_fd (e_open_target env)])"
      using ok False e by (simp add: play_file_mode trace_call trace_calls)
    moreover have "list_all (\<lambda>ev. \<not> is_tuning ev) (?pre @ evs @ [Close_fd (e_open_target env)])"
      using t by simp
    ultimately show ?thesis by blast
  qed
qed


subsection \<open>The bounded run and the run\<close>

text \<open>The hold loop returns exactly if some bound on its reads is enough, and so do
  the functions around it, with the same result.\<close>

lemma hold_loop_upto_done:
  "hold_loop_upto n env fd i s = (True, s') \<Longrightarrow> hold_loop env fd i s = Some s'"
proof (induction n arbitrary: i s)
  case 0
  then show ?case by simp
next
  case (Suc n)
  obtain ret data where r: "e_node_read env i = (ret, data)"
    by (cases "e_node_read env i")
  show ?case
  proof (cases "0 < ret")
    case True
    with Suc.prems r have "hold_loop_upto n env fd (Suc i) (call env (Read_fd fd) s) = (True, s')"
      by simp
    then have "hold_loop env fd (Suc i) (call env (Read_fd fd) s) = Some s'"
      by (rule Suc.IH)
    with True r show ?thesis
      by (simp add: hold_loop_positive)
  next
    case False
    with Suc.prems r show ?thesis
      by (simp add: hold_loop_stop)
  qed
qed

lemma hold_loop_needs_fuel:
  assumes "hold_loop env fd i s = Some s'"
  shows "\<exists>n. hold_loop_upto n env fd i s = (True, s')"
proof (rule hold_loop.raw_induct
    [where P = "\<lambda>env fd i s s'. \<exists>n. hold_loop_upto n env fd i s = (True, s')", OF _ assms])
  fix hold env fd i s s'
  assume IH: "\<And>env fd i s s'. hold env fd i s = Some s' \<Longrightarrow>
                \<exists>n. hold_loop_upto n env fd i s = (True, s')"
    and step: "(case e_node_read env i of
                  (ret, data) \<Rightarrow>
                    if 0 < ret then hold env fd (Suc i) (call env (Read_fd fd) s)
                    else Some (call env (Read_fd fd) s)) = Some s'"
  obtain ret data where r: "e_node_read env i = (ret, data)"
    by (cases "e_node_read env i")
  show "\<exists>n. hold_loop_upto n env fd i s = (True, s')"
  proof (cases "0 < ret")
    case True
    with step r have "hold env fd (Suc i) (call env (Read_fd fd) s) = Some s'"
      by simp
    then obtain n where "hold_loop_upto n env fd (Suc i) (call env (Read_fd fd) s) = (True, s')"
      using IH by blast
    with True r have "hold_loop_upto (Suc n) env fd i s = (True, s')"
      by simp
    then show ?thesis ..
  next
    case False
    with step r have "hold_loop_upto (Suc 0) env fd i s = (True, s')"
      by simp
    then show ?thesis ..
  qed
qed

lemma hold_loop_upto_iff:
  "hold_loop env fd i s = Some s' \<longleftrightarrow> (\<exists>n. hold_loop_upto n env fd i s = (True, s'))"
  using hold_loop_upto_done hold_loop_needs_fuel by blast

lemma hold_loop_upto_adds:
  "\<exists>k. trace (snd (hold_loop_upto n env fd i s)) = trace s @ replicate k (Read_fd fd)"
proof (induction n arbitrary: i s)
  case 0
  have "trace (snd (hold_loop_upto 0 env fd i s)) = trace s @ replicate 0 (Read_fd fd)"
    by simp
  then show ?case ..
next
  case (Suc n)
  obtain ret data where r: "e_node_read env i = (ret, data)"
    by (cases "e_node_read env i")
  show ?case
  proof (cases "0 < ret")
    case True
    from Suc.IH [of "Suc i" "call env (Read_fd fd) s"] obtain k where
      "trace (snd (hold_loop_upto n env fd (Suc i) (call env (Read_fd fd) s))) =
         trace (call env (Read_fd fd) s) @ replicate k (Read_fd fd)" ..
    with True r have "trace (snd (hold_loop_upto (Suc n) env fd i s)) =
        trace s @ replicate (Suc k) (Read_fd fd)"
      by (simp add: trace_call)
    then show ?thesis ..
  next
    case False
    with r have "trace (snd (hold_loop_upto (Suc n) env fd i s)) =
        trace s @ replicate 1 (Read_fd fd)"
      by (simp add: trace_call)
    then show ?thesis ..
  qed
qed


lemma open_and_hold_device_upto_iff:
  "open_and_hold_device env d s = Some s' \<longleftrightarrow>
   (\<exists>n. open_and_hold_device_upto n env d s = (True, s'))"
proof -
  obtain fd s1 where op: "open_evemu_device env d s = (fd, s1)"
    by (cases "open_evemu_device env d s")
  show ?thesis
  proof (cases "fd < 0")
    case True
    with op show ?thesis
      by (auto simp add: open_and_hold_device_def open_and_hold_device_upto_def)
  next
    case False
    have step: "open_and_hold_device_upto n env d s = (True, s') \<longleftrightarrow>
          (\<exists>s2. hold_loop_upto n env fd 0 s1 = (True, s2) \<and> s' = call env (Close_fd fd) s2)"
      for n
    proof -
      obtain b s2 where "hold_loop_upto n env fd 0 s1 = (b, s2)"
        by (cases "hold_loop_upto n env fd 0 s1")
      with op False show ?thesis
        by (cases b) (auto simp add: open_and_hold_device_upto_def)
    qed
    have "(\<exists>n. open_and_hold_device_upto n env d s = (True, s')) \<longleftrightarrow>
          (\<exists>n s2. hold_loop_upto n env fd 0 s1 = (True, s2) \<and> s' = call env (Close_fd fd) s2)"
      by (simp add: step)
    also have "\<dots> \<longleftrightarrow> (\<exists>s2. hold_loop env fd 0 s1 = Some s2 \<and> s' = call env (Close_fd fd) s2)"
      by (auto simp add: hold_loop_upto_iff)
    also have "\<dots> \<longleftrightarrow> open_and_hold_device env d s = Some s'"
      using op False
      by (auto simp add: open_and_hold_device_def split: option.splits)
    finally show ?thesis ..
  qed
qed

lemma evemu_device_upto_iff:
  "evemu_device env fp s = Some (r, s') \<longleftrightarrow> (\<exists>n. evemu_device_upto n env fp s = (Some r, s'))"
proof -
  obtain dv s1 where cd: "create_device env fp s = (dv, s1)"
    by (cases "create_device env fp s")
  show ?thesis
  proof (cases dv)
    case None
    with cd show ?thesis
      by (auto simp add: evemu_device_def evemu_device_upto_def)
  next
    case (Some d)
    have step: "evemu_device_upto n env fp s = (Some r, s') \<longleftrightarrow>
          (\<exists>s2. open_and_hold_device_upto n env d s1 = (True, s2) \<and>
                r = 0 \<and> s' = call env (Evemu_delete d) s2)"
      for n
    proof -
      obtain b s2 where "open_and_hold_device_upto n env d s1 = (b, s2)"
        by (cases "open_and_hold_device_upto n env d s1")
      with cd Some show ?thesis
        by (cases b) (auto simp add: evemu_device_upto_def)
    qed
    have "(\<exists>n. evemu_device_upto n env fp s = (Some r, s')) \<longleftrightarrow>
          (\<exists>n s2. open_and_hold_device_upto n env d s1 = (True, s2) \<and>
                  r = 0 \<and> s' = call env (Evemu_delete d) s2)"
      by (simp add: step)
    also have "\<dots> \<longleftrightarrow> (\<exists>s2. open_and_hold_device env d s1 = Some s2 \<and>
                              r = 0 \<and> s' = call env (Evemu_delete d) s2)"
      by (auto simp add: open_and_hold_device_upto_iff)
    also have "\<dots> \<longleftrightarrow> evemu_device env fp s = Some (r, s')"
      using cd Some
      by (auto simp add: evemu_device_def split: option.splits)
    finally show ?thesis ..
  qed
qed

lemma device_upto_iff:
  "device env s = Some (r, s') \<longleftrightarrow> (\<exists>n. device_upto n env s = (Some r, s'))"
proof (cases "length (e_argv env) < 2")
  case True
  then show ?thesis
    by (auto simp add: device_def device_upto_def Let_def)
next
  case argc: False
  show ?thesis
  proof (cases "e_fopen env")
    case None
    with argc show ?thesis
      by (auto simp add: device_def device_upto_def Let_def)
  next
    case (Some fp)
    let ?s1 = "call env (Fopen (e_argv env ! 1)) s"
    let ?fin = "\<lambda>ret s2. if ret \<le> 0
                  then r = - 1 \<and> s' = call env (Stderr (Could_not_create_device_ret ret)) s2
                  else r = 0 \<and> s' = call env (Fclose fp) s2"
    have step: "device_upto n env s = (Some r, s') \<longleftrightarrow>
          (\<exists>ret s2. evemu_device_upto n env fp ?s1 = (Some ret, s2) \<and> ?fin ret s2)"
      for n
    proof -
      obtain x s2 where "evemu_device_upto n env fp ?s1 = (x, s2)"
        by (cases "evemu_device_upto n env fp ?s1")
      with argc Some show ?thesis
        by (cases x) (auto simp add: device_upto_def Let_def)
    qed
    have "(\<exists>n. device_upto n env s = (Some r, s')) \<longleftrightarrow>
          (\<exists>n ret s2. evemu_device_upto n env fp ?s1 = (Some ret, s2) \<and> ?fin ret s2)"
      by (simp add: step)
    also have "\<dots> \<longleftrightarrow> (\<exists>ret s2. evemu_device env fp ?s1 = Some (ret, s2) \<and> ?fin ret s2)"
      by (auto simp add: evemu_device_upto_iff)
    also have "\<dots> \<longleftrightarrow> device env s = Some (r, s')"
      using argc Some
      by (auto simp add: device_def Let_def split: option.splits if_splits)
    finally show ?thesis ..
  qed
qed

lemma main_upto_iff:
  "main env s = Some (r, s') \<longleftrightarrow> (\<exists>n. main_upto n env s = (Some r, s'))"
  by (auto simp add: main_def main_upto_def Let_def device_upto_iff)

lemma open_and_hold_device_upto_adds:
  "\<exists>evs. trace (snd (open_and_hold_device_upto n env d s)) = trace s @ evs \<and>
     list_all (\<lambda>ev. \<not> is_tuning ev) evs"
proof -
  obtain fd s1 where op: "open_evemu_device env d s = (fd, s1)"
    by (cases "open_evemu_device env d s")
  from open_evemu_device_adds [OF op, of "\<lambda>ev. \<not> is_tuning ev"]
  obtain evs1 where e1: "trace s1 = trace s @ evs1" "list_all (\<lambda>ev. \<not> is_tuning ev) evs1"
    by auto
  from hold_loop_upto_adds [of n env fd 0 s1]
  obtain k where h: "trace (snd (hold_loop_upto n env fd 0 s1)) = trace s1 @ replicate k (Read_fd fd)" ..
  have "trace (snd (open_and_hold_device_upto n env d s)) =
          trace s @ evs1 @
          (if fd < 0 then []
           else replicate k (Read_fd fd) @
                (if fst (hold_loop_upto n env fd 0 s1) then [Close_fd fd] else []))"
    using op e1 h
    by (auto simp add: open_and_hold_device_upto_def trace_call split: prod.splits bool.splits)
  moreover have "list_all (\<lambda>ev. \<not> is_tuning ev)
                   (evs1 @
                    (if fd < 0 then []
                     else replicate k (Read_fd fd) @
                          (if fst (hold_loop_upto n env fd 0 s1) then [Close_fd fd] else [])))"
    using e1(2) by (auto simp add: list_all_iff)
  ultimately show ?thesis
    by blast
qed

lemma device_upto_adds:
  "\<exists>evs. trace (snd (device_upto n env s)) = trace s @ evs \<and>
     list_all (\<lambda>ev. \<not> is_tuning ev) evs"
proof (cases "length (e_argv env) < 2")
  case True
  then show ?thesis
    by (simp add: device_upto_def Let_def trace_call)
next
  case argc: False
  let ?s1 = "call env (Fopen (e_argv env ! 1)) s"
  show ?thesis
  proof (cases "e_fopen env")
    case None
    with argc show ?thesis
      by (simp add: device_upto_def Let_def trace_call)
  next
    case (Some fp)
    obtain dv s2 where cd: "create_device env fp ?s1 = (dv, s2)"
      by (cases "create_device env fp ?s1")
    from create_device_adds [OF cd, of "\<lambda>ev. \<not> is_tuning ev"]
    obtain evs1 where e1: "trace s2 = trace ?s1 @ evs1" "list_all (\<lambda>ev. \<not> is_tuning ev) evs1"
      by auto
    show ?thesis
    proof (cases dv)
      case None
      with argc Some cd e1 show ?thesis
        by (simp add: device_upto_def evemu_device_upto_def Let_def trace_call)
    next
      case dv: (Some d)
      from open_and_hold_device_upto_adds [of n env d s2]
      obtain evs2 where e2: "trace (snd (open_and_hold_device_upto n env d s2)) = trace s2 @ evs2"
        "list_all (\<lambda>ev. \<not> is_tuning ev) evs2"
        by blast
      have "trace (snd (device_upto n env s)) =
              trace s @ Fopen (e_argv env ! 1) # evs1 @ evs2 @
              (if fst (open_and_hold_device_upto n env d s2)
               then [Evemu_delete d, Stderr (Could_not_create_device_ret 0)] else [])"
        using argc Some cd dv e1 e2
        by (auto simp add: device_upto_def evemu_device_upto_def Let_def trace_call
              split: prod.splits bool.splits)
      moreover have "list_all (\<lambda>ev. \<not> is_tuning ev)
              (Fopen (e_argv env ! 1) # evs1 @ evs2 @
               (if fst (open_and_hold_device_upto n env d s2)
                then [Evemu_delete d, Stderr (Could_not_create_device_ret 0)] else []))"
        using e1(2) e2(2) by simp
      ultimately show ?thesis
        by blast
    qed
  qed
qed

lemma main_upto_adds:
  "\<exists>rest. trace (snd (main_upto n env s)) = trace (setup_realtime_cpu env s) @ rest \<and>
     list_all (\<lambda>ev. \<not> is_tuning ev) rest"
  using device_upto_adds [of n env "setup_realtime_cpu env s"]
    play_adds [of env "setup_realtime_cpu env s"]
  by (simp add: main_upto_def Let_def)

lemma hold_loop_upto_running:
  "\<forall>j. 0 < fst (e_node_read env j) \<Longrightarrow>
   hold_loop_upto n env fd i s = (False, calls env (replicate n (Read_fd fd)) s)"
proof (induction n arbitrary: i s)
  case 0
  then show ?case by simp
next
  case (Suc n)
  from Suc.prems have "0 < fst (e_node_read env i)"
    by simp
  with Suc show ?case
    by (simp add: case_prod_beta)
qed

lemma hold_loop_forever:
  assumes "\<forall>j. 0 < fst (e_node_read env j)"
  shows "hold_loop env fd i s = None"
proof (cases "hold_loop env fd i s")
  case None
  then show ?thesis .
next
  case (Some s')
  then obtain n where "hold_loop_upto n env fd i s = (True, s')"
    using hold_loop_needs_fuel by blast
  with hold_loop_upto_running [OF assms, of n fd i s] show ?thesis
    by simp
qed

subsection \<open>The sample runs, evaluated\<close>

lemmas run_defs =
  main_def is_device_name_def setup_realtime_cpu_def device_def evemu_device_def
  open_and_hold_device_def play_def play_from_stdin_def play_from_file_def replay_file_def
  create_device_def create_device_out_def open_evemu_device_def arg_def call_def
  S_ISCHR_def S_IFMT_def S_IFCHR_def errno_sample_def

lemma env_device_fields:
  "e_argv env_device = [''evemu-device'', ''dev.prop'']"
  "e_prgm_name env_device = Some ''evemu-device''"
  "e_errno env_device = errno_sample"
  "e_setaffinity env_device = 0"
  "e_setscheduler env_device = - 1"
  "e_mlockall env_device = 0"
  "e_fopen env_device = Some 1"
  "e_new env_device = Some 7"
  "e_read env_device = 1"
  "e_desc_name env_device = ''vtest''"
  "e_create_managed env_device = 0"
  "e_devnode env_device = Some ''/dev/input/event9''"
  "e_open_node env_device = 5"
  "e_node_read env_device = (\<lambda>i. if i < 3 then (24, replicate 24 0) else (0, []))"
  by (simp_all add: env_device_def env_replay_def)

lemma main_env_device_run:
  "main env_device s0 =
     Some (- 1,
       \<lparr>errno = 13,
        trace =
          [Sched_setaffinity 3, Stdout Cpu_pinned, Sched_setscheduler_fifo 99,
           Stderr (Perror ''sched_setscheduler failed (are you root?)'' 0),
           Mlockall, Stdout Memory_locked, Fopen ''dev.prop'', Evemu_new,
           Evemu_read 7 1, Evemu_create_managed 7 ''vtest'',
           Open_rdwr ''/dev/input/event9'',
           Stdout (Device_line ''vtest'' ''/dev/input/event9''),
           Fflush_stdout, Read_fd 5, Read_fd 5, Read_fd 5, Read_fd 5,
           Close_fd 5, Evemu_delete 7,
           Stderr (Could_not_create_device_ret 0)],
        dev_name = ''vtest''\<rparr>)"
proof -
  have hold: "hold_loop env_device 5 0 s =
      Some (call env_device (Read_fd 5) (call env_device (Read_fd 5)
             (call env_device (Read_fd 5) (call env_device (Read_fd 5) s))))" for s
    using hold_loop_reads [of 3 env_device 0 5 s]
    by (simp add: env_device_fields numeral_3_eq_3)
  show ?thesis
    by (simp add: run_defs env_device_fields hold s0_def)
qed

lemma main_env_replay_failed_run:
  "main (env_replay\<lparr>e_play := - 1\<rparr>) s0 =
     Some (0,
       \<lparr>errno = 13,
        trace =
          [Sched_setaffinity 3, Stdout Cpu_pinned, Sched_setscheduler_fifo 99,
           Stderr (Perror ''sched_setscheduler failed (are you root?)'' 0),
           Mlockall, Stdout Memory_locked, Open_rdwr ''recording.evemu'',
           Fstat 3, Fdopen 3, Evemu_new, Evemu_read 7 2,
           Evemu_create_managed 7 ''vtest'', Open_rdwr ''/dev/input/event9'',
           Stdout (Device_line ''vtest'' ''/dev/input/event9''),
           Fflush_stdout, Stdout Blank_line, Stdout Starting_replay,
           Fflush_stdout, Fseek_set 2, Evemu_play (File 2) 5 0,
           Stderr Could_not_replay, Evemu_delete 7, Fclose 2, Close_fd 5,
           Close_fd 3],
        dev_name = ''vtest''\<rparr>)"
  by (simp add: run_defs env_replay_def s0_def)

lemma env_live_ok:
  "2 \<le> length (e_argv env_live)" "length (e_argv env_live) \<le> 3"
  "0 \<le> e_open_target env_live" "e_fstat env_live \<noteq> - 1"
  "[Open_rdwr ''/dev/input/event3'', Fstat 3, Atol ''2000'',
    Stdout (Start_offset 2000), Fflush_stdout] =
   [Open_rdwr (e_argv env_live ! 1), Fstat (e_open_target env_live)] @
     (if length (e_argv env_live) = 3
      then [Atol (e_argv env_live ! 2),
            Stdout (Start_offset (e_atol env_live (e_argv env_live ! 2))), Fflush_stdout]
      else [])"
  "2000 = (if length (e_argv env_live) = 3 then e_atol env_live (e_argv env_live ! 2) else 0)"
  "S_ISCHR (e_st_mode env_live)"
  by (simp_all add: env_live_def env_replay_def S_ISCHR_def S_IFMT_def S_IFCHR_def)

lemma env_replay_ok:
  "2 \<le> length (e_argv env_replay)" "length (e_argv env_replay) \<le> 3"
  "0 \<le> e_open_target env_replay" "e_fstat env_replay \<noteq> - 1"
  "[Open_rdwr ''recording.evemu'', Fstat 3] =
   [Open_rdwr (e_argv env_replay ! 1), Fstat (e_open_target env_replay)] @
     (if length (e_argv env_replay) = 3
      then [Atol (e_argv env_replay ! 2),
            Stdout (Start_offset (e_atol env_replay (e_argv env_replay ! 2))), Fflush_stdout]
      else [])"
  "0 = (if length (e_argv env_replay) = 3 then e_atol env_replay (e_argv env_replay ! 2) else 0)"
  "\<not> S_ISCHR (e_st_mode env_replay) \<and> e_fdopen env_replay = Some 2 \<and>
   e_new env_replay = Some 7 \<and> 0 < e_read env_replay"
  "e_open_target env_replay = 3" "e_desc_name env_replay = ''vtest''"
  by (simp_all add: env_replay_def S_ISCHR_def S_IFMT_def S_IFCHR_def)

lemma env_hold_fields:
  "e_argv env_hold = [''evemu-device'', ''dev.prop'']"
  "e_prgm_name env_hold = Some ''evemu-device''"
  "e_errno env_hold = errno_sample"
  "e_setaffinity env_hold = 0"
  "e_setscheduler env_hold = - 1"
  "e_mlockall env_hold = 0"
  "e_fopen env_hold = Some 1"
  "e_new env_hold = Some 7"
  "e_read env_hold = 1"
  "e_desc_name env_hold = ''vtest''"
  "e_create_managed env_hold = 0"
  "e_devnode env_hold = Some ''/dev/input/event9''"
  "e_open_node env_hold = 5"
  "e_node_read env_hold = (\<lambda>i. (24, replicate 24 0))"
  by (simp_all add: env_hold_def env_device_def env_replay_def)

lemma main_env_hold_run: "main env_hold s0 = None"
proof -
  have "hold_loop env_hold 5 0 s = None" for s
    by (rule hold_loop_forever) (simp add: env_hold_fields)
  then show ?thesis
    by (simp add: run_defs env_hold_fields s0_def)
qed

lemma main_upto_env_hold_run:
  "main_upto 2 env_hold s0 =
     (None,
      \<lparr>errno = 13,
       trace =
         [Sched_setaffinity 3, Stdout Cpu_pinned, Sched_setscheduler_fifo 99,
          Stderr (Perror ''sched_setscheduler failed (are you root?)'' 0),
          Mlockall, Stdout Memory_locked, Fopen ''dev.prop'', Evemu_new,
          Evemu_read 7 1, Evemu_create_managed 7 ''vtest'',
          Open_rdwr ''/dev/input/event9'',
          Stdout (Device_line ''vtest'' ''/dev/input/event9''), Fflush_stdout,
          Read_fd 5, Read_fd 5],
       dev_name = ''vtest''\<rparr>)"
  by (simp add: main_upto_def device_upto_def evemu_device_upto_def
        open_and_hold_device_upto_def run_defs env_hold_fields s0_def numeral_2_eq_2)

subsection \<open>The scheduling tuner\<close>

lemma setup_realtime_cpu_trace:
  "\<exists>e1 e2 e3.
     trace (setup_realtime_cpu env s) =
       trace s @
       [Sched_setaffinity 3,
        (if e_setaffinity env \<noteq> 0 then Stderr (Perror ''sched_setaffinity failed'' e1)
         else Stdout Cpu_pinned),
        Sched_setscheduler_fifo 99,
        (if e_setscheduler env \<noteq> 0
         then Stderr (Perror ''sched_setscheduler failed (are you root?)'' e2)
         else Stdout Realtime_enabled),
        Mlockall,
        (if e_mlockall env \<noteq> 0 then Stderr (Perror ''mlockall failed'' e3)
         else Stdout Memory_locked)]"
  by (simp add: setup_realtime_cpu_def Let_def trace_call)

lemma setup_realtime_cpu_adds:
  "\<exists>evs. trace (setup_realtime_cpu env s) = trace s @ evs \<and>
     list_all (\<lambda>ev. \<not> is_play ev \<and> ev \<noteq> Stderr Could_not_replay) evs"
  by (simp add: setup_realtime_cpu_def Let_def trace_call)

text \<open>
  C8.  \<^verbatim>\<open>setup_realtime_cpu\<close> has no result but the state it leaves.  Whatever
  \<^verbatim>\<open>sched_setaffinity\<close>, \<^verbatim>\<open>sched_setscheduler\<close> and \<^verbatim>\<open>mlockall\<close> return,
  it makes exactly these three calls in this order, each followed by one line: the
  failure on the error stream or the success on standard output.  \<^verbatim>\<open>main\<close> runs the
  tuner before anything else and never again: at whatever point a run is observed
  (after at most \<open>n\<close> reads of the hold loop, for every \<open>n\<close>), its trace is the
  tuner's trace followed by calls none of which is a tuning call.  This holds for the
  runs that stay in the hold loop for ever as for the runs that return; a run returns
  exactly if some bound is enough, with the same result and state.
\<close>

theorem main_tuning_first:
  "(\<exists>e1 e2 e3.
      trace (setup_realtime_cpu env s) =
        trace s @
             [Sched_setaffinity 3,
              (if e_setaffinity env \<noteq> 0 then Stderr (Perror ''sched_setaffinity failed'' e1)
               else Stdout Cpu_pinned),
              Sched_setscheduler_fifo 99,
              (if e_setscheduler env \<noteq> 0
               then Stderr (Perror ''sched_setscheduler failed (are you root?)'' e2)
               else Stdout Realtime_enabled),
              Mlockall,
              (if e_mlockall env \<noteq> 0 then Stderr (Perror ''mlockall failed'' e3)
               else Stdout Memory_locked)]) \<and>
   (\<exists>rest. trace (snd (main_upto n env s)) = trace (setup_realtime_cpu env s) @ rest \<and>
           list_all (\<lambda>ev. \<not> is_tuning ev) rest) \<and>
   ((main env s = Some (r, s')) = (\<exists>k. main_upto k env s = (Some r, s'))) \<and>
   (main env s = Some (r, s') \<longrightarrow>
      (\<exists>rest. trace s' = trace (setup_realtime_cpu env s) @ rest \<and>
              list_all (\<lambda>ev. \<not> is_tuning ev) rest))"
proof (intro conjI impI)
  show "\<exists>e1 e2 e3.
      trace (setup_realtime_cpu env s) =
        trace s @
             [Sched_setaffinity 3,
              (if e_setaffinity env \<noteq> 0 then Stderr (Perror ''sched_setaffinity failed'' e1)
               else Stdout Cpu_pinned),
              Sched_setscheduler_fifo 99,
              (if e_setscheduler env \<noteq> 0
               then Stderr (Perror ''sched_setscheduler failed (are you root?)'' e2)
               else Stdout Realtime_enabled),
              Mlockall,
              (if e_mlockall env \<noteq> 0 then Stderr (Perror ''mlockall failed'' e3)
               else Stdout Memory_locked)]"
    by (rule setup_realtime_cpu_trace)
next
  show "\<exists>rest. trace (snd (main_upto n env s)) = trace (setup_realtime_cpu env s) @ rest \<and>
           list_all (\<lambda>ev. \<not> is_tuning ev) rest"
    by (rule main_upto_adds)
next
  show "(main env s = Some (r, s')) = (\<exists>k. main_upto k env s = (Some r, s'))"
    by (rule main_upto_iff)
next
  assume "main env s = Some (r, s')"
  then obtain k where k: "main_upto k env s = (Some r, s')"
    using main_upto_iff by blast
  from main_upto_adds [of k env s] k
  show "\<exists>rest. trace s' = trace (setup_realtime_cpu env s) @ rest \<and>
           list_all (\<lambda>ev. \<not> is_tuning ev) rest"
    by simp
qed

theorem main_tuning_first_witness:
  "main env_hold s0 = None \<and>
   fst (main_upto 2 env_hold s0) = None \<and>
   (\<exists>rest. trace (snd (main_upto 2 env_hold s0)) =
             trace (setup_realtime_cpu env_hold s0) @ rest \<and>
           list_all (\<lambda>ev. \<not> is_tuning ev) rest) \<and>
   (\<exists>e2. trace (setup_realtime_cpu env_device s0) =
     [Sched_setaffinity 3, Stdout Cpu_pinned, Sched_setscheduler_fifo 99,
      Stderr (Perror ''sched_setscheduler failed (are you root?)'' e2),
      Mlockall, Stdout Memory_locked]) \<and>
   (\<exists>r s' rest.
      main env_device s0 = Some (r, s') \<and>
      trace s' = trace (setup_realtime_cpu env_device s0) @ rest \<and>
      list_all (\<lambda>ev. \<not> is_tuning ev) rest)"
proof (intro conjI)
  show "main env_hold s0 = None"
    by (rule main_env_hold_run)
next
  show "fst (main_upto 2 env_hold s0) = None"
    by (simp add: main_upto_env_hold_run)
next
  show "\<exists>rest. trace (snd (main_upto 2 env_hold s0)) =
             trace (setup_realtime_cpu env_hold s0) @ rest \<and>
           list_all (\<lambda>ev. \<not> is_tuning ev) rest"
    by (rule main_tuning_first [of env_hold s0 2, THEN conjunct2, THEN conjunct1])
next
  show "\<exists>e2. trace (setup_realtime_cpu env_device s0) =
     [Sched_setaffinity 3, Stdout Cpu_pinned, Sched_setscheduler_fifo 99,
      Stderr (Perror ''sched_setscheduler failed (are you root?)'' e2),
      Mlockall, Stdout Memory_locked]"
    using main_tuning_first [of env_device s0, THEN conjunct1]
    by (simp add: env_device_fields s0_def)
next
  show "\<exists>r s' rest.
      main env_device s0 = Some (r, s') \<and>
      trace s' = trace (setup_realtime_cpu env_device s0) @ rest \<and>
      list_all (\<lambda>ev. \<not> is_tuning ev) rest"
    using main_tuning_first [THEN conjunct2, THEN conjunct2, THEN conjunct2, THEN mp,
        OF main_env_device_run]
      main_env_device_run
    by blast
qed

subsection \<open>Exit status of the replay command\<close>

text \<open>
  C10.  When the program is started as the replay command on a target that opens, can
  be inspected and is a character device, \<^verbatim>\<open>main\<close> returns 0 whatever
  \<^verbatim>\<open>evemu_play\<close> returned: after the tuner the run opens and inspects the target,
  reads and prints the offset if one was given, replays standard input onto the target with
  offset 0, reports a failed replay on the error stream, and closes the target.
\<close>

theorem main_live_mode_exit_status:
  assumes "2 \<le> length (e_argv env)" and "length (e_argv env) \<le> 3"
    and "0 \<le> e_open_target env" and "e_fstat env \<noteq> - 1" and "S_ISCHR (e_st_mode env)"
    and "\<not> is_device_name (e_prgm_name env)"
  shows "main env s =
           Some (0, calls env
                      ([Open_rdwr (e_argv env ! 1), Fstat (e_open_target env)] @
                       (if length (e_argv env) = 3
                        then [Atol (e_argv env ! 2),
                              Stdout (Start_offset (e_atol env (e_argv env ! 2))), Fflush_stdout]
                        else []) @
                       [Evemu_play Stdin (e_open_target env) 0] @
                       (if e_play env \<noteq> 0 then [Stderr Could_not_replay] else []) @
                       [Close_fd (e_open_target env)])
                      (setup_realtime_cpu env s)) \<and>
         exit_status 0 = 0"
  using assms by (simp add: main_def Let_def play_live_mode exit_status_def)

theorem main_live_mode_exit_status_witness:
  "main (env_live\<lparr>e_play := - 1\<rparr>) s0 =
     Some (0,
       \<lparr>errno = 0,
        trace =
          [Sched_setaffinity 3, Stdout Cpu_pinned, Sched_setscheduler_fifo 99,
           Stderr (Perror ''sched_setscheduler failed (are you root?)'' 0),
           Mlockall, Stdout Memory_locked, Open_rdwr ''/dev/input/event3'',
           Fstat 3, Atol ''2000'', Stdout (Start_offset 2000), Fflush_stdout,
           Evemu_play Stdin 3 0, Stderr Could_not_replay, Close_fd 3],
        dev_name = []\<rparr>)"
  using main_live_mode_exit_status [of "env_live\<lparr>e_play := - 1\<rparr>" s0]
  by (simp add: env_live_def env_replay_def s0_def S_ISCHR_def S_IFMT_def S_IFCHR_def
        is_device_name_def setup_realtime_cpu_def call_def errno_sample_def)

text \<open>
  C7.  When the program is started as the replay command on a target that opens, can
  be inspected and is not a character device, \<^verbatim>\<open>main\<close> returns 0, so the exit
  status is 0, whatever happens in \<^verbatim>\<open>play_from_file\<close>; and whenever the run called
  \<^verbatim>\<open>evemu_play\<close> and it returned a nonzero value, the run wrote the line
  "could not replay device" to the error stream.
\<close>

theorem main_file_mode_exit_status:
  assumes "2 \<le> length (e_argv env)" and "length (e_argv env) \<le> 3"
    and "0 \<le> e_open_target env" and "e_fstat env \<noteq> - 1" and "\<not> S_ISCHR (e_st_mode env)"
    and "\<not> is_device_name (e_prgm_name env)"
  shows "\<exists>s'. main env s = Some (0, s') \<and> exit_status 0 = 0 \<and>
           (list_ex is_play (new_events s s') \<and> e_play env \<noteq> 0 \<longrightarrow>
              Stderr Could_not_replay \<in> set (new_events s s'))"
proof -
  let ?s1 = "setup_realtime_cpu env s"
  let ?pre = "[Open_rdwr (e_argv env ! 1), Fstat (e_open_target env)] @
              (if length (e_argv env) = 3
               then [Atol (e_argv env ! 2),
                     Stdout (Start_offset (e_atol env (e_argv env ! 2))), Fflush_stdout]
               else [])"
  let ?off = "if length (e_argv env) = 3 then e_atol env (e_argv env ! 2) else 0"
  let ?s' = "call env (Close_fd (e_open_target env))
               (snd (play_from_file env (e_open_target env) ?off (calls env ?pre ?s1)))"
  have m: "main env s = Some (0, ?s')"
    using assms by (simp add: main_def Let_def play_file_mode)
  from setup_realtime_cpu_adds [of env s]
  obtain evs0 where e0: "trace ?s1 = trace s @ evs0"
    and q0: "list_all (\<lambda>ev. \<not> is_play ev \<and> ev \<noteq> Stderr Could_not_replay) evs0"
    by blast
  from play_from_file_adds [of env "e_open_target env" ?off "calls env ?pre ?s1"]
  obtain evs where e: "trace (snd (play_from_file env (e_open_target env) ?off (calls env ?pre ?s1))) =
                         trace (calls env ?pre ?s1) @ evs"
    and rep: "list_ex is_play evs \<and> e_play env \<noteq> 0 \<longrightarrow> Stderr Could_not_replay \<in> set evs"
    by blast
  have "trace ?s' = trace s @ (evs0 @ ?pre @ evs @ [Close_fd (e_open_target env)])"
    using e0 e by (simp add: trace_call trace_calls)
  then have n: "new_events s ?s' = evs0 @ ?pre @ evs @ [Close_fd (e_open_target env)]"
    by (rule new_events_append)
  have "list_ex is_play (new_events s ?s') \<and> e_play env \<noteq> 0 \<longrightarrow>
          Stderr Could_not_replay \<in> set (new_events s ?s')"
    using q0 rep unfolding n by (auto simp add: list_all_iff list_ex_iff)
  with m show ?thesis
    by (simp add: exit_status_def)
qed

theorem main_file_mode_exit_status_witness:
  "\<exists>s'. main (env_replay\<lparr>e_play := - 1\<rparr>) s0 = Some (0, s') \<and>
     list_ex is_play (new_events s0 s') \<and>
     Stderr Could_not_replay \<in> set (new_events s0 s')"
  using main_file_mode_exit_status [of "env_replay\<lparr>e_play := - 1\<rparr>" s0]
    main_env_replay_failed_run
  by (simp add: env_replay_def s0_def S_ISCHR_def S_IFMT_def S_IFCHR_def is_device_name_def
        new_events_def)

subsection \<open>Exit status of the create-device command\<close>

text \<open>\<^verbatim>\<open>evemu_device\<close> returns 0 or \<open>-1\<close> and \<^verbatim>\<open>device\<close> takes both for a failure:
  the create-device command never returns 0.\<close>

lemma device_returns_minus_one:
  "device env s = Some (r, s') \<Longrightarrow> r = - 1"
  by (auto simp add: device_def evemu_device_def Let_def split: option.splits prod.splits if_splits)


text \<open>
  C6, the failing run.  Started as \<^verbatim>\<open>evemu-device dev.prop\<close> with every call
  succeeding, the program loads the description, registers the device, opens the
  node, holds it until the reads end and deletes the device; \<^verbatim>\<open>evemu_device\<close>
  returns 0.  \<^verbatim>\<open>device\<close> tests \<^verbatim>\<open>ret <= 0\<close>, prints "could not create device: 0"
  and returns \<open>-1\<close>: the exit status is 255, not 0.
\<close>

theorem device_command_clean_run:
  "main env_device s0 =
     Some (- 1,
       \<lparr>errno = 13,
        trace =
          [Sched_setaffinity 3, Stdout Cpu_pinned, Sched_setscheduler_fifo 99,
           Stderr (Perror ''sched_setscheduler failed (are you root?)'' 0),
           Mlockall, Stdout Memory_locked, Fopen ''dev.prop'', Evemu_new,
           Evemu_read 7 1, Evemu_create_managed 7 ''vtest'',
           Open_rdwr ''/dev/input/event9'',
           Stdout (Device_line ''vtest'' ''/dev/input/event9''),
           Fflush_stdout, Read_fd 5, Read_fd 5, Read_fd 5, Read_fd 5,
           Close_fd 5, Evemu_delete 7,
           Stderr (Could_not_create_device_ret 0)],
        dev_name = ''vtest''\<rparr>) \<and>
   exit_status (- 1) = 255"
  using main_env_device_run by (simp add: exit_status_def)

subsection \<open>Mode selection\<close>

lemma create_device_starts:
  "\<exists>evs. trace (snd (create_device env fp s)) = trace s @ Evemu_new # evs"
  by (simp add: create_device_def create_device_out_def Let_def trace_call
        split: option.splits)

lemma create_device_registers:
  assumes "e_new env = Some d" and "0 < e_read env"
  shows "\<exists>evs. trace (snd (create_device env fp s)) =
           trace s @ [Evemu_new, Evemu_read d fp] @
           (if e_desc_name env = [] then [Evemu_set_name d (synthetic_name (e_pid env))]
            else []) @
           [Evemu_create_managed d
              (if e_desc_name env = [] then synthetic_name (e_pid env) else e_desc_name env)] @
           evs"
  using assms
  by (simp add: create_device_def create_device_out_def Let_def trace_call dev_name_call)

lemma play_from_file_after_create:
  assumes "e_fdopen env = Some fp"
  shows "\<exists>evs. trace (snd (play_from_file env rfd off s)) =
           trace (snd (create_device env fp (call env (Fdopen rfd) s))) @ evs"
proof -
  let ?s1 = "call env (Fdopen rfd) s"
  obtain dv s2 where cd: "create_device env fp ?s1 = (dv, s2)"
    by (cases "create_device env fp ?s1")
  show ?thesis
  proof (cases dv)
    case None
    with assms cd show ?thesis
      by (simp add: play_from_file_def Let_def trace_call)
  next
    case (Some d)
    obtain fd s3 where op: "open_evemu_device env d s2 = (fd, s3)"
      by (cases "open_evemu_device env d s2")
    from open_evemu_device_adds [OF op, of "\<lambda>ev. True"]
    obtain evs2 where "trace s3 = trace s2 @ evs2"
      by auto
    with assms cd Some op show ?thesis
      by (simp add: play_from_file_def Let_def trace_call trace_replay_file)
  qed
qed

text \<open>
  C1, as the code has it.  With a target that opens and can be inspected, \<^verbatim>\<open>play\<close>
  chooses by \<^verbatim>\<open>S_ISCHR(st.st_mode)\<close>.  For a character device the whole run is: the
  prologue \<open>pre\<close> (open, fstat and, if an offset was given, atol and the offset line), one
  \<^verbatim>\<open>evemu_play\<close> from standard input onto the target descriptor with offset 0, the
  report if it failed, and the close; no call allocates or registers a device.  For any
  other file the run is \<^verbatim>\<open>play_from_file\<close> on the target descriptor with the offset
  of the command line.  File mode calls \<^verbatim>\<open>evemu_new\<close> right after \<^verbatim>\<open>fdopen\<close> whenever
  \<^verbatim>\<open>fdopen\<close> succeeds, and goes on to \<^verbatim>\<open>evemu_create_managed\<close> whenever
  \<^verbatim>\<open>evemu_new\<close> succeeds and \<^verbatim>\<open>evemu_read\<close> is positive; when \<^verbatim>\<open>fdopen\<close>
  fails it reports the error and closes the target, and nothing is created.
\<close>

theorem play_mode_selection:
  assumes "2 \<le> length (e_argv env)" and "length (e_argv env) \<le> 3"
    and "0 \<le> e_open_target env" and "e_fstat env \<noteq> - 1"
    and pre: "pre = [Open_rdwr (e_argv env ! 1), Fstat (e_open_target env)] @
                    (if length (e_argv env) = 3
                     then [Atol (e_argv env ! 2),
                           Stdout (Start_offset (e_atol env (e_argv env ! 2))), Fflush_stdout]
                     else [])"
    and off: "off = (if length (e_argv env) = 3 then e_atol env (e_argv env ! 2) else 0)"
  shows "(S_ISCHR (e_st_mode env) \<longrightarrow>
            play env s =
              (0, calls env
                    (pre @ [Evemu_play Stdin (e_open_target env) 0] @
                     (if e_play env \<noteq> 0 then [Stderr Could_not_replay] else []) @
                     [Close_fd (e_open_target env)]) s)) \<and>
         (S_ISCHR (e_st_mode env) \<longrightarrow>
            \<not> list_ex is_creation (new_events s (snd (play env s)))) \<and>
         (\<not> S_ISCHR (e_st_mode env) \<longrightarrow>
            play env s =
              (0, call env (Close_fd (e_open_target env))
                    (snd (play_from_file env (e_open_target env) off (calls env pre s))))) \<and>
         (\<not> S_ISCHR (e_st_mode env) \<and> e_fdopen env = None \<longrightarrow>
            (\<exists>e. new_events s (snd (play env s)) =
                   pre @ [Fdopen (e_open_target env), Stderr (Could_not_open_file e),
                          Close_fd (e_open_target env)])) \<and>
         (\<not> S_ISCHR (e_st_mode env) \<and> e_fdopen env \<noteq> None \<longrightarrow>
            (\<exists>evs. new_events s (snd (play env s)) =
                     pre @ [Fdopen (e_open_target env), Evemu_new] @ evs)) \<and>
         (\<not> S_ISCHR (e_st_mode env) \<and> e_fdopen env = Some fp \<and> e_new env = Some d \<and>
          0 < e_read env \<longrightarrow>
            (\<exists>evs. new_events s (snd (play env s)) =
                     pre @ [Fdopen (e_open_target env), Evemu_new, Evemu_read d fp] @
                     (if e_desc_name env = []
                      then [Evemu_set_name d (synthetic_name (e_pid env))] else []) @
                     [Evemu_create_managed d
                        (if e_desc_name env = [] then synthetic_name (e_pid env)
                         else e_desc_name env)] @
                     evs))"
proof (intro conjI impI)
  assume "S_ISCHR (e_st_mode env)"
  with assms show "play env s =
      (0, calls env
            (pre @ [Evemu_play Stdin (e_open_target env) 0] @
             (if e_play env \<noteq> 0 then [Stderr Could_not_replay] else []) @
             [Close_fd (e_open_target env)]) s)"
    by (simp add: play_live_mode)
next
  assume "S_ISCHR (e_st_mode env)"
  with assms have "trace (snd (play env s)) =
      trace s @ (pre @ [Evemu_play Stdin (e_open_target env) 0] @
                 (if e_play env \<noteq> 0 then [Stderr Could_not_replay] else []) @
                 [Close_fd (e_open_target env)])"
    by (simp add: play_live_mode trace_call trace_calls)
  then have "new_events s (snd (play env s)) =
      pre @ [Evemu_play Stdin (e_open_target env) 0] @
      (if e_play env \<noteq> 0 then [Stderr Could_not_replay] else []) @
      [Close_fd (e_open_target env)]"
    by (rule new_events_append)
  then show "\<not> list_ex is_creation (new_events s (snd (play env s)))"
    by (simp add: pre)
next
  assume "\<not> S_ISCHR (e_st_mode env)"
  with assms show "play env s =
      (0, call env (Close_fd (e_open_target env))
            (snd (play_from_file env (e_open_target env) off (calls env pre s))))"
    by (simp add: play_file_mode)
next
  assume a: "\<not> S_ISCHR (e_st_mode env) \<and> e_fdopen env = None"
  with assms have "play env s =
      (0, call env (Close_fd (e_open_target env))
            (snd (play_from_file env (e_open_target env) off (calls env pre s))))"
    by (simp add: play_file_mode)
  with a have "trace (snd (play env s)) =
      trace s @ (pre @ [Fdopen (e_open_target env),
                        Stderr (Could_not_open_file
                                  (errno (call env (Fdopen (e_open_target env)) (calls env pre s)))),
                        Close_fd (e_open_target env)])"
    by (simp add: play_from_file_def Let_def trace_call trace_calls)
  then show "\<exists>e. new_events s (snd (play env s)) =
      pre @ [Fdopen (e_open_target env), Stderr (Could_not_open_file e),
             Close_fd (e_open_target env)]"
    by (blast dest: new_events_append)
next
  assume a: "\<not> S_ISCHR (e_st_mode env) \<and> e_fdopen env \<noteq> None"
  then obtain fp' where fp': "e_fdopen env = Some fp'"
    by auto
  let ?s1 = "call env (Fdopen (e_open_target env)) (calls env pre s)"
  from a assms have p: "play env s =
      (0, call env (Close_fd (e_open_target env))
            (snd (play_from_file env (e_open_target env) off (calls env pre s))))"
    by (simp add: play_file_mode)
  from play_from_file_after_create [OF fp', of "e_open_target env" off "calls env pre s"]
  obtain evs2 where "trace (snd (play_from_file env (e_open_target env) off (calls env pre s))) =
      trace (snd (create_device env fp' ?s1)) @ evs2"
    by blast
  moreover from create_device_starts [of env fp' ?s1]
  obtain evs1 where "trace (snd (create_device env fp' ?s1)) = trace ?s1 @ Evemu_new # evs1"
    by blast
  ultimately have "trace (snd (play env s)) =
      trace s @ (pre @ [Fdopen (e_open_target env), Evemu_new] @
                 (evs1 @ evs2 @ [Close_fd (e_open_target env)]))"
    using p by (simp add: trace_call trace_calls)
  then show "\<exists>evs. new_events s (snd (play env s)) =
      pre @ [Fdopen (e_open_target env), Evemu_new] @ evs"
    by (blast dest: new_events_append)
next
  assume a: "\<not> S_ISCHR (e_st_mode env) \<and> e_fdopen env = Some fp \<and> e_new env = Some d \<and>
             0 < e_read env"
  let ?s1 = "call env (Fdopen (e_open_target env)) (calls env pre s)"
  let ?mid = "(if e_desc_name env = []
               then [Evemu_set_name d (synthetic_name (e_pid env))] else []) @
              [Evemu_create_managed d
                 (if e_desc_name env = [] then synthetic_name (e_pid env)
                  else e_desc_name env)]"
  from a assms have p: "play env s =
      (0, call env (Close_fd (e_open_target env))
            (snd (play_from_file env (e_open_target env) off (calls env pre s))))"
    by (simp add: play_file_mode)
  from a play_from_file_after_create [of env fp "e_open_target env" off "calls env pre s"]
  obtain evs2 where "trace (snd (play_from_file env (e_open_target env) off (calls env pre s))) =
      trace (snd (create_device env fp ?s1)) @ evs2"
    by blast
  moreover from a create_device_registers [of env d fp ?s1]
  obtain evs1 where "trace (snd (create_device env fp ?s1)) =
      trace ?s1 @ [Evemu_new, Evemu_read d fp] @ ?mid @ evs1"
    by auto
  ultimately have "trace (snd (play env s)) =
      trace s @ (pre @ [Fdopen (e_open_target env), Evemu_new, Evemu_read d fp] @ ?mid @
                 (evs1 @ evs2 @ [Close_fd (e_open_target env)]))"
    using p by (simp add: trace_call trace_calls)
  then have "new_events s (snd (play env s)) =
      pre @ [Fdopen (e_open_target env), Evemu_new, Evemu_read d fp] @ ?mid @
      (evs1 @ evs2 @ [Close_fd (e_open_target env)])"
    by (rule new_events_append)
  then show "\<exists>evs. new_events s (snd (play env s)) =
      pre @ [Fdopen (e_open_target env), Evemu_new, Evemu_read d fp] @
      (if e_desc_name env = []
       then [Evemu_set_name d (synthetic_name (e_pid env))] else []) @
      [Evemu_create_managed d
         (if e_desc_name env = [] then synthetic_name (e_pid env)
          else e_desc_name env)] @ evs"
    by (metis append.assoc)
qed

text \<open>
  C1 as stated fails: the sample target is a regular file, \<^verbatim>\<open>fdopen\<close> fails, and the
  run of file mode makes no call that creates a device.
\<close>

theorem play_file_mode_without_creation:
  "\<not> S_ISCHR (e_st_mode (env_replay\<lparr>e_fdopen := None\<rparr>)) \<and>
   play (env_replay\<lparr>e_fdopen := None\<rparr>) s0 =
     (0, \<lparr>errno = 0,
          trace = [Open_rdwr ''recording.evemu'', Fstat 3, Fdopen 3,
                   Stderr (Could_not_open_file 0), Close_fd 3],
          dev_name = []\<rparr>)"
  by (simp add: run_defs env_replay_def s0_def)

theorem play_mode_selection_witness:
  "play env_live s0 =
     (0, \<lparr>errno = 0,
          trace = [Open_rdwr ''/dev/input/event3'', Fstat 3, Atol ''2000'', Stdout (Start_offset 2000),
                   Fflush_stdout, Evemu_play Stdin 3 0, Close_fd 3],
          dev_name = []\<rparr>) \<and>
   (\<exists>evs. new_events s0 (snd (play env_replay s0)) =
      [Open_rdwr ''recording.evemu'', Fstat 3, Fdopen 3, Evemu_new, Evemu_read 7 2,
       Evemu_create_managed 7 ''vtest''] @ evs)"
proof
  show "play env_live s0 =
     (0, \<lparr>errno = 0,
          trace = [Open_rdwr ''/dev/input/event3'', Fstat 3, Atol ''2000'', Stdout (Start_offset 2000),
                   Fflush_stdout, Evemu_play Stdin 3 0, Close_fd 3],
          dev_name = []\<rparr>)"
    using play_mode_selection [of env_live _ _ s0 2 7, OF env_live_ok(1-6), THEN conjunct1]
      env_live_ok(7)
    by (simp add: env_live_def env_replay_def s0_def call_def errno_sample_def)
next
  show "\<exists>evs. new_events s0 (snd (play env_replay s0)) =
      [Open_rdwr ''recording.evemu'', Fstat 3, Fdopen 3, Evemu_new, Evemu_read 7 2,
       Evemu_create_managed 7 ''vtest''] @ evs"
    using play_mode_selection [of env_replay _ _ s0 2 7, OF env_replay_ok(1-6),
        THEN conjunct2, THEN conjunct2, THEN conjunct2, THEN conjunct2, THEN conjunct2]
      env_replay_ok(7)
    by (simp add: env_replay_ok(8,9))
qed

end
